theory Spec2Isabelle
  imports Main "HOL-Library.Word" "HOL-Library.Log_Nat"
begin

section \<open>JavaScript values as the server sees them\<close>

text \<open>
  A JavaScript string is a sequence of 16-bit code units. String constants of the
  source are written with \<open>str\<close>, which maps each ASCII character to its code unit.
\<close>

type_synonym cu = "16 word"
type_synonym jsstring = "cu list"

definition str :: "string \<Rightarrow> jsstring" where
  "str s = map (\<lambda>c. of_nat (of_char c)) s"

text \<open>
  Numbers are IEEE doubles. A finite double is modelled by its exact rational value
  (\<open>Fin\<close>); the two zeros are not told apart, which no operation of this program
  observes (comparison, \<open>Number.isInteger\<close> and conversion to text treat them alike).
\<close>

datatype jsnum = NaN | PosInf | NegInf | Fin rat

text \<open>
  The argument bag of a call holds JSON values. The program observes a value only through
  \<open>typeof\<close>, truthiness and \<open>Number(...)\<close>; for an array or a plain object all three are
  determined by the text its default string conversion yields (\<open>[50]\<close> gives \<open>"50"\<close>,
  \<open>{}\<close> gives \<open>"[object Object]"\<close>), which \<open>JObject\<close> carries.
\<close>

datatype jsval =
    JUndefined
  | JNull
  | JBool bool
  | JNum jsnum
  | JStr jsstring
  | JObject jsstring

datatype jstype = TUndefined | TObject | TBoolean | TNumber | TString

fun typeof :: "jsval \<Rightarrow> jstype" where
  "typeof JUndefined = TUndefined"
| "typeof JNull = TObject"
| "typeof (JBool b) = TBoolean"
| "typeof (JNum n) = TNumber"
| "typeof (JStr s) = TString"
| "typeof (JObject s) = TObject"

text \<open>Truthiness (ToBoolean): what \<open>if (v)\<close>, \<open>!v\<close>, \<open>v && ...\<close> and \<open>v ? a : b\<close> test.\<close>

fun truthy :: "jsval \<Rightarrow> bool" where
  "truthy JUndefined = False"
| "truthy JNull = False"
| "truthy (JBool b) = b"
| "truthy (JNum n) = (n \<noteq> NaN \<and> n \<noteq> Fin 0)"
| "truthy (JStr s) = (s \<noteq> [])"
| "truthy (JObject s) = True"

subsection \<open>White space and \<open>String.prototype.trim\<close>\<close>

text \<open>The code units ECMAScript counts as WhiteSpace or LineTerminator.\<close>

definition is_ws :: "cu \<Rightarrow> bool" where
  "is_ws c \<longleftrightarrow>
     c \<in> {0x09, 0x0A, 0x0B, 0x0C, 0x0D, 0x20, 0xA0, 0x1680, 0x2028, 0x2029, 0x202F, 0x205F,
          0x3000, 0xFEFF}
     \<or> (0x2000 \<le> c \<and> c \<le> 0x200A)"

definition trim :: "jsstring \<Rightarrow> jsstring" where
  "trim s = rev (dropWhile is_ws (rev (dropWhile is_ws s)))"

subsection \<open>Rounding to a double\<close>

text \<open>
  \<open>round_double q\<close> is the double nearest to the rational \<open>q\<close>, ties to the even
  significand, with overflow to an infinity: 53 bits of significand, exponents from
  \<open>-1022\<close> (below it the spacing stays \<open>2 ^ -1074\<close>) to \<open>1023\<close>.
\<close>

definition floor_log2 :: "rat \<Rightarrow> int" where
  "floor_log2 a =
     (let k = bitlen (fst (quotient_of a)) - bitlen (snd (quotient_of a))
      in if 2 powi k \<le> a then k else k - 1)"

definition round_half_even :: "rat \<Rightarrow> int" where
  "round_half_even m =
     (let f = \<lfloor>m\<rfloor>; r = m - of_int f
      in if r < 1 / 2 then f else if 1 / 2 < r then f + 1 else if even f then f else f + 1)"

definition round_double :: "rat \<Rightarrow> jsnum" where
  "round_double q =
     (if q = 0 then Fin 0
      else
        let a = \<bar>q\<bar>;
            e = max (floor_log2 a) (- 1022);
            ulp = 2 powi (e - 52);
            m = of_int (round_half_even (a / ulp)) * ulp
        in if 2 powi 1024 \<le> m then (if q < 0 then NegInf else PosInf)
           else Fin (if q < 0 then - m else m))"

subsection \<open>\<open>Number(value)\<close>\<close>

definition is_digit :: "cu \<Rightarrow> bool" where
  "is_digit c \<longleftrightarrow> 0x30 \<le> c \<and> c \<le> 0x39"

text \<open>The value of a digit in a radix up to 16, if the code unit is such a digit.\<close>

definition digit_value :: "nat \<Rightarrow> cu \<Rightarrow> nat option" where
  "digit_value radix c =
     (let v = (if 0x30 \<le> c \<and> c \<le> 0x39 then Some (unat c - 0x30)
               else if 0x61 \<le> c \<and> c \<le> 0x66 then Some (unat c - 0x61 + 10)
               else if 0x41 \<le> c \<and> c \<le> 0x46 then Some (unat c - 0x41 + 10)
               else None)
      in case v of Some d \<Rightarrow> if d < radix then Some d else None | None \<Rightarrow> None)"

fun digits_value :: "nat \<Rightarrow> nat \<Rightarrow> jsstring \<Rightarrow> nat option" where
  "digits_value radix acc [] = Some acc"
| "digits_value radix acc (c # cs) =
     (case digit_value radix c of
        None \<Rightarrow> None
      | Some d \<Rightarrow> digits_value radix (acc * radix + d) cs)"

text \<open>One or more digits of the radix, and nothing else: their value.\<close>

definition parse_digits :: "nat \<Rightarrow> jsstring \<Rightarrow> nat option" where
  "parse_digits radix s = (if s = [] then None else digits_value radix 0 s)"

text \<open>An optional sign: \<open>(negative, rest)\<close>.\<close>

fun take_sign :: "jsstring \<Rightarrow> bool \<times> jsstring" where
  "take_sign [] = (False, [])"
| "take_sign (c # cs) =
     (if c = 0x2B then (False, cs) else if c = 0x2D then (True, cs) else (False, c # cs))"

text \<open>ExponentPart, or nothing: the exponent.\<close>

definition parse_exponent :: "jsstring \<Rightarrow> int option" where
  "parse_exponent s =
     (case s of
        [] \<Rightarrow> Some 0
      | c # cs \<Rightarrow>
          if c = 0x65 \<or> c = 0x45 then
            (case parse_digits 10 (snd (take_sign cs)) of
               None \<Rightarrow> None
             | Some n \<Rightarrow> Some (if fst (take_sign cs) then - int n else int n))
          else None)"

text \<open>
  StrUnsignedDecimalLiteral without \<open>Infinity\<close>: digits, an optional fraction, an optional
  exponent, with at least one digit before or after the point. The result is the
  literal's exact mathematical value.
\<close>

definition parse_decimal :: "jsstring \<Rightarrow> rat option" where
  "parse_decimal s =
     (let ip = takeWhile is_digit s;
          r1 = dropWhile is_digit s;
          dotted = (r1 \<noteq> [] \<and> hd r1 = 0x2E);
          fp = (if dotted then takeWhile is_digit (tl r1) else []);
          r2 = (if dotted then dropWhile is_digit (tl r1) else r1)
      in if ip = [] \<and> fp = [] then None
         else
           (case (digits_value 10 0 (ip @ fp), parse_exponent r2) of
              (Some m, Some e) \<Rightarrow> Some (of_nat m * 10 powi (e - int (length fp)))
            | _ \<Rightarrow> None))"

text \<open>NonDecimalIntegerLiteral: \<open>0b\<close>, \<open>0o\<close> or \<open>0x\<close> (either case) and digits.\<close>

definition parse_radix_prefix :: "jsstring \<Rightarrow> (nat \<times> jsstring) option" where
  "parse_radix_prefix s =
     (case s of
        z # p # ds \<Rightarrow>
          if z \<noteq> 0x30 then None
          else if p = 0x62 \<or> p = 0x42 then Some (2, ds)
          else if p = 0x6F \<or> p = 0x4F then Some (8, ds)
          else if p = 0x78 \<or> p = 0x58 then Some (16, ds)
          else None
      | _ \<Rightarrow> None)"

text \<open>
  StringToNumber: white space is trimmed; the empty string is \<open>0\<close>; a literal of the
  StringNumericLiteral grammar is its value rounded to a double; anything else is
  \<open>NaN\<close>. (ECMAScript lets an implementation round a literal of more than 20
  significant digits less exactly; the model rounds every literal correctly, as V8
  does.)
\<close>

definition stringToNumber :: "jsstring \<Rightarrow> jsnum" where
  "stringToNumber s =
     (let t = trim s in
      if t = [] then Fin 0
      else
        (case parse_radix_prefix t of
           Some (radix, ds) \<Rightarrow>
             (case parse_digits radix ds of
                None \<Rightarrow> NaN
              | Some n \<Rightarrow> round_double (of_nat n))
         | None \<Rightarrow>
             (let neg = fst (take_sign t); u = snd (take_sign t) in
              if u = str ''Infinity'' then (if neg then NegInf else PosInf)
              else
                (case parse_decimal u of
                   None \<Rightarrow> NaN
                 | Some q \<Rightarrow> round_double (if neg then - q else q)))))"

fun Number :: "jsval \<Rightarrow> jsnum" where
  "Number JUndefined = NaN"
| "Number JNull = Fin 0"
| "Number (JBool b) = Fin (if b then 1 else 0)"
| "Number (JNum n) = n"
| "Number (JStr s) = stringToNumber s"
| "Number (JObject s) = stringToNumber s"

definition Number_isInteger :: "jsnum \<Rightarrow> bool" where
  "Number_isInteger n = (case n of Fin q \<Rightarrow> of_int \<lfloor>q\<rfloor> = q | _ \<Rightarrow> False)"

definition Number_isFinite :: "jsnum \<Rightarrow> bool" where
  "Number_isFinite n = (case n of Fin q \<Rightarrow> True | _ \<Rightarrow> False)"

text \<open>The relational operator \<open><\<close> on numbers: false as soon as one side is \<open>NaN\<close>.\<close>

fun num_lt :: "jsnum \<Rightarrow> jsnum \<Rightarrow> bool" where
  "num_lt (Fin x) (Fin y) = (x < y)"
| "num_lt NegInf (Fin y) = True"
| "num_lt NegInf PosInf = True"
| "num_lt (Fin x) PosInf = True"
| "num_lt a b = False"

subsection \<open>Numbers as text (template literals)\<close>

text \<open>
  \<open>Number::toString\<close> of ECMAScript, radix 10. For a positive finite \<open>x\<close> it takes
  integers \<open>n\<close>, \<open>k\<close> and \<open>s\<close> with \<open>k \<ge> 1\<close>, \<open>10 ^ (k - 1) \<le> s < 10 ^ k\<close> and
  \<open>s * 10 ^ (n - k)\<close> rounding to \<open>x\<close>, with \<open>k\<close> as small as possible (17 digits always
  suffice for a double) and, among several \<open>s\<close>, the one nearest to \<open>x\<close> (the even one on
  a tie); \<open>n\<close>, \<open>k\<close> and the digits of \<open>s\<close> then fix the text. (A rational that is
  not the value of a double has no such digits; \<open>positiveToString\<close> is empty there,
  and never on a number of the program.)
\<close>

fun natToDigits :: "nat \<Rightarrow> jsstring" where
  "natToDigits n =
     (if n < 10 then [of_nat (0x30 + n)]
      else natToDigits (n div 10) @ [of_nat (0x30 + n mod 10)])"

declare natToDigits.simps [simp del]

text \<open>The \<open>n\<close> with \<open>10 ^ (n - 1) \<le> a < 10 ^ n\<close>, for a positive \<open>a\<close>.\<close>

definition decimal_exponent :: "rat \<Rightarrow> int" where
  "decimal_exponent a =
     (let k = int (floorlog 10 (nat (fst (quotient_of a))))
              - int (floorlog 10 (nat (snd (quotient_of a))))
      in if a < 10 powi k then k else k + 1)"

definition candidates :: "rat \<Rightarrow> nat \<Rightarrow> (int \<times> int) list" where
  "candidates x k =
     [(n, s).
        n \<leftarrow> [decimal_exponent x - 1, decimal_exponent x, decimal_exponent x + 1],
        s \<leftarrow> [\<lfloor>x / 10 powi (n - int k)\<rfloor>, \<lfloor>x / 10 powi (n - int k)\<rfloor> + 1],
        10 ^ (k - 1) \<le> s \<and> s < 10 ^ k \<and> round_double (of_int s * 10 powi (n - int k)) = Fin x]"

definition closer :: "rat \<Rightarrow> nat \<Rightarrow> int \<times> int \<Rightarrow> int \<times> int \<Rightarrow> int \<times> int" where
  "closer x k a b =
     (let da = \<bar>of_int (snd a) * 10 powi (fst a - int k) - x\<bar>;
          db = \<bar>of_int (snd b) * 10 powi (fst b - int k) - x\<bar>
      in if db < da \<or> (db = da \<and> even (snd b) \<and> odd (snd a)) then b else a)"

fun shortest_digits :: "rat \<Rightarrow> nat list \<Rightarrow> (int \<times> nat \<times> int) option" where
  "shortest_digits x [] = None"
| "shortest_digits x (k # ks) =
     (case candidates x k of
        [] \<Rightarrow> shortest_digits x ks
      | c # cs \<Rightarrow> Some (fst (foldl (closer x k) c cs), k, snd (foldl (closer x k) c cs)))"

definition exponent_text :: "int \<Rightarrow> jsstring" where
  "exponent_text n =
     [0x65] @ (if 0 \<le> n - 1 then [0x2B] else [0x2D]) @ natToDigits (nat \<bar>n - 1\<bar>)"

definition positiveToString :: "rat \<Rightarrow> jsstring" where
  "positiveToString x =
     (case shortest_digits x [1 ..< 18] of
        None \<Rightarrow> []
      | Some (n, k, s) \<Rightarrow>
          (let ds = natToDigits (nat s) in
           if int k \<le> n \<and> n \<le> 21 then ds @ replicate (nat (n - int k)) 0x30
           else if 0 < n \<and> n \<le> 21 then take (nat n) ds @ [0x2E] @ drop (nat n) ds
           else if - 6 < n \<and> n \<le> 0 then [0x30, 0x2E] @ replicate (nat (- n)) 0x30 @ ds
           else if k = 1 then ds @ exponent_text n
           else take 1 ds @ [0x2E] @ drop 1 ds @ exponent_text n))"

fun numberToString :: "jsnum \<Rightarrow> jsstring" where
  "numberToString NaN = str ''NaN''"
| "numberToString PosInf = str ''Infinity''"
| "numberToString NegInf = str ''-Infinity''"
| "numberToString (Fin q) =
     (if q = 0 then str ''0''
      else if q < 0 then [0x2D] @ positiveToString (- q)
      else positiveToString q)"

text \<open>ToString, which a template literal applies to each value it interpolates.\<close>

fun toString :: "jsval \<Rightarrow> jsstring" where
  "toString JUndefined = str ''undefined''"
| "toString JNull = str ''null''"
| "toString (JBool b) = (if b then str ''true'' else str ''false'')"
| "toString (JNum n) = numberToString n"
| "toString (JStr s) = s"
| "toString (JObject s) = s"

section \<open>The server's helper functions\<close>

text \<open>\<open>throw new Error(message)\<close>: an error is its message.\<close>

datatype error = Error (message: jsstring)

subsection \<open>\<open>JSON.stringify\<close> of a string, and \<open>slice\<close>\<close>

definition is_lead_surrogate :: "cu \<Rightarrow> bool" where
  "is_lead_surrogate c \<longleftrightarrow> 0xD800 \<le> c \<and> c \<le> 0xDBFF"

definition is_trail_surrogate :: "cu \<Rightarrow> bool" where
  "is_trail_surrogate c \<longleftrightarrow> 0xDC00 \<le> c \<and> c \<le> 0xDFFF"

definition hex_digit :: "nat \<Rightarrow> cu" where
  "hex_digit d = (if d < 10 then of_nat (0x30 + d) else of_nat (0x61 + (d - 10)))"

text \<open>UnicodeEscape: \<open>\u\<close> and four lower-case hexadecimal digits.\<close>

definition unicodeEscape :: "cu \<Rightarrow> jsstring" where
  "unicodeEscape c =
     [0x5C, 0x75, hex_digit (unat c div 4096), hex_digit (unat c div 256 mod 16),
      hex_digit (unat c div 16 mod 16), hex_digit (unat c mod 16)]"

text \<open>
  What QuoteJSONString appends for one code unit that is not part of a surrogate pair:
  the two-character escapes of its table, a \<open>\u\<close> escape for the other code units below
  \<open>0x20\<close> and for a lone surrogate, the code unit itself otherwise.
\<close>

definition quoteUnit :: "cu \<Rightarrow> jsstring" where
  "quoteUnit c =
     (if c = 0x08 then [0x5C, 0x62]
      else if c = 0x09 then [0x5C, 0x74]
      else if c = 0x0A then [0x5C, 0x6E]
      else if c = 0x0C then [0x5C, 0x66]
      else if c = 0x0D then [0x5C, 0x72]
      else if c = 0x22 then [0x5C, 0x22]
      else if c = 0x5C then [0x5C, 0x5C]
      else if c < 0x20 \<or> is_lead_surrogate c \<or> is_trail_surrogate c then unicodeEscape c
      else [c])"

text \<open>
  The string is read by code points: a lead surrogate followed by a trail surrogate is
  one code point and is copied as it is.
\<close>

fun quoteChars :: "jsstring \<Rightarrow> jsstring" where
  "quoteChars [] = []"
| "quoteChars [c] = quoteUnit c"
| "quoteChars (c # d # ds) =
     (if is_lead_surrogate c \<and> is_trail_surrogate d then c # d # quoteChars ds
      else quoteUnit c @ quoteChars (d # ds))"

definition JSON_stringify :: "jsstring \<Rightarrow> jsstring" where
  "JSON_stringify s = [0x22] @ quoteChars s @ [0x22]"

text \<open>\<open>s.slice(start, end)\<close>: a negative index counts from the end of the string.\<close>

definition slice :: "jsstring \<Rightarrow> int \<Rightarrow> int \<Rightarrow> jsstring" where
  "slice s start end' =
     (let len = int (length s);
          from = (if start < 0 then max (len + start) 0 else min start len);
          to = (if end' < 0 then max (len + end') 0 else min end' len)
      in take (nat (to - from)) (drop (nat from) s))"

definition escapeAppleScriptString :: "jsval \<Rightarrow> jsstring" where
  "escapeAppleScriptString v =
     (case v of
        JStr s \<Rightarrow> slice (JSON_stringify s) 1 (- 1)
      | _ \<Rightarrow> [])"

text \<open>
  Version 0.0.1 of the server escaped with two replacements instead, each of every
  occurrence (\<open>/\\/g\<close>, then \<open>/"/g\<close>): a backslash becomes two backslashes, a double
  quote becomes backslash and quote.
\<close>

definition replaceAll :: "cu \<Rightarrow> jsstring \<Rightarrow> jsstring \<Rightarrow> jsstring" where
  "replaceAll c r s = concat (map (\<lambda>x. if x = c then r else [x]) s)"

definition escapeAppleScriptString_v1 :: "jsval \<Rightarrow> jsstring" where
  "escapeAppleScriptString_v1 v =
     (case v of
        JStr s \<Rightarrow> replaceAll 0x22 [0x5C, 0x22] (replaceAll 0x5C [0x5C, 0x5C] s)
      | _ \<Rightarrow> [])"

subsection \<open>The validators\<close>

definition validateInteger :: "jsval \<Rightarrow> jsstring \<Rightarrow> jsnum \<Rightarrow> jsnum \<Rightarrow> error + jsnum" where
  "validateInteger v name minimum maximum =
     (let num = Number v in
      if \<not> Number_isInteger num then Inl (Error (name @ str '' must be an integer''))
      else if num_lt num minimum \<or> num_lt maximum num then
        Inl (Error (name @ str '' must be between '' @ numberToString minimum
                    @ str '' and '' @ numberToString maximum))
      else Inr num)"

definition validateNumber :: "jsval \<Rightarrow> jsstring \<Rightarrow> jsnum \<Rightarrow> jsnum \<Rightarrow> error + jsnum" where
  "validateNumber v name minimum maximum =
     (let num = Number v in
      if \<not> Number_isFinite num then Inl (Error (name @ str '' must be a valid number''))
      else if num_lt num minimum \<or> num_lt maximum num then
        Inl (Error (name @ str '' must be between '' @ numberToString minimum
                    @ str '' and '' @ numberToString maximum))
      else Inr num)"

definition validateBoolean :: "jsval \<Rightarrow> jsstring \<Rightarrow> error + bool" where
  "validateBoolean v name =
     (if typeof v \<noteq> TBoolean then Inl (Error (name @ str '' must be a boolean''))
      else (case v of JBool b \<Rightarrow> Inr b | _ \<Rightarrow> Inl (Error (name @ str '' must be a boolean''))))"

subsection \<open>Regular expressions and \<open>isValidSpotifyUri\<close>\<close>

text \<open>
  The pattern of \<open>isValidSpotifyUri\<close> uses literal characters, character ranges,
  alternation, grouping and \<open>+\<close>, between the anchors \<open>^\<close> and \<open>$\<close> and without flags.
  For such a pattern \<open>test\<close> answers whether the whole string belongs to the
  pattern's language; the model decides that with derivatives.
\<close>

datatype regex =
    Zero
  | One
  | Lit cu
  | Range cu cu
  | Alt regex regex
  | Seq regex regex
  | Star regex

definition Plus :: "regex \<Rightarrow> regex" where
  "Plus r = Seq r (Star r)"

text \<open>A word of the pattern, character by character, and a list of alternatives.\<close>

fun chars :: "jsstring \<Rightarrow> regex" where
  "chars [] = One"
| "chars (c # cs) = Seq (Lit c) (chars cs)"

fun alts :: "regex list \<Rightarrow> regex" where
  "alts [] = Zero"
| "alts (r # rs) = Alt r (alts rs)"

fun nullable :: "regex \<Rightarrow> bool" where
  "nullable Zero = False"
| "nullable One = True"
| "nullable (Lit c) = False"
| "nullable (Range a b) = False"
| "nullable (Alt r s) = (nullable r \<or> nullable s)"
| "nullable (Seq r s) = (nullable r \<and> nullable s)"
| "nullable (Star r) = True"

fun deriv :: "cu \<Rightarrow> regex \<Rightarrow> regex" where
  "deriv c Zero = Zero"
| "deriv c One = Zero"
| "deriv c (Lit d) = (if c = d then One else Zero)"
| "deriv c (Range a b) = (if a \<le> c \<and> c \<le> b then One else Zero)"
| "deriv c (Alt r s) = Alt (deriv c r) (deriv c s)"
| "deriv c (Seq r s) =
     (if nullable r then Alt (Seq (deriv c r) s) (deriv c s) else Seq (deriv c r) s)"
| "deriv c (Star r) = Seq (deriv c r) (Star r)"

fun regex_test :: "regex \<Rightarrow> jsstring \<Rightarrow> bool" where
  "regex_test r [] = nullable r"
| "regex_test r (c # cs) = regex_test (deriv c r) cs"

text \<open>The character class \<open>[a-zA-Z0-9]\<close>.\<close>

definition alnum_class :: regex where
  "alnum_class = Alt (Range 0x61 0x7A) (Alt (Range 0x41 0x5A) (Range 0x30 0x39))"

text \<open>
  \<^verbatim>\<open>/^spotify:(track|album|artist|playlist|show|episode|user|collection)(:[a-zA-Z0-9]+)+$/\<close>
\<close>

definition uri_types :: "jsstring list" where
  "uri_types =
     map str [''track'', ''album'', ''artist'', ''playlist'', ''show'', ''episode'', ''user'',
              ''collection'']"

definition spotifyUriPattern :: regex where
  "spotifyUriPattern =
     Seq (chars (str ''spotify:''))
       (Seq (alts (map chars uri_types))
            (Plus (Seq (Lit 0x3A) (Plus alnum_class))))"

definition isValidSpotifyUri :: "jsval \<Rightarrow> bool" where
  "isValidSpotifyUri uri =
     (if typeof uri \<noteq> TString then False
      else (case uri of JStr s \<Rightarrow> regex_test spotifyUriPattern s | _ \<Rightarrow> False))"

section \<open>The server\<close>

subsection \<open>The external executor\<close>

text \<open>
  \<open>execFileAsync("osascript", ["-e", script], {timeout, maxBuffer})\<close> runs outside the
  program: it either fails (a non-zero exit, the timeout, too much output), which
  rejects with an error, or yields the two output streams. The model takes it as a
  function of the script and records every script handed to it.
\<close>

record proc_output =
  stdout :: jsstring
  stderr :: jsstring

type_synonym executor = "jsstring \<Rightarrow> error + proc_output"

text \<open>
  \<open>executeAppleScript\<close>: one call of the executor; the standard output trimmed on
  success, the executor's error thrown again on failure. (The lines written to the
  console are not part of the model.) The second component is the log of the scripts
  executed so far.
\<close>

definition executeAppleScript ::
  "executor \<Rightarrow> jsstring \<Rightarrow> jsstring list \<Rightarrow> (error + jsstring) \<times> jsstring list" where
  "executeAppleScript osascript script calls =
     (case osascript script of
        Inl e \<Rightarrow> (Inl e, calls @ [script])
      | Inr out \<Rightarrow> (Inr (trim (stdout out)), calls @ [script]))"

subsection \<open>Requests and responses\<close>

text \<open>
  \<open>request.params\<close>: the tool name, absent or a string, and the argument bag, absent or
  an object from property names to values. A property that is not there reads as
  \<open>undefined\<close>.
\<close>

record request =
  params_name :: "jsstring option"
  params_arguments :: "(jsstring \<rightharpoonup> jsval) option"

definition getProperty :: "(jsstring \<rightharpoonup> jsval) \<Rightarrow> jsstring \<Rightarrow> jsval" where
  "getProperty args k = (case args k of None \<Rightarrow> JUndefined | Some v \<Rightarrow> v)"

text \<open>
  The response \<open>{content: [{type: "text", text: ...}], isError: ...}\<close>: its one text
  block, and \<open>isError\<close>, which a success response does not have.
\<close>

record response =
  content_text :: jsstring
  isError :: "bool option"

subsection \<open>The scripts\<close>

text \<open>The script of \<open>spotify_get_current_track\<close>, as the template literal spells it.\<close>

definition currentTrackScript :: jsstring where
  \<open>currentTrackScript =
     concat (map (\<lambda>l. 0x0A # l)
       [str ''              tell application "Spotify"'',
        str ''                if player state is not stopped then'',
        str ''                  set trackName to name of current track'',
        str ''                  set trackArtist to artist of current track'',
        str ''                  set trackAlbum to album of current track'',
        str ''                  set trackDuration to duration of current track'',
        str ''                  set trackPopularity to popularity of current track'',
        str ''                  set trackId to id of current track'',
        str ''                  set trackUrl to spotify url of current track'',
        str ''                  return "Name: " & trackName & "'' @ [0x5C] @
        str ''nArtist: " & trackArtist & "'' @ [0x5C] @
        str ''nAlbum: " & trackAlbum & "'' @ [0x5C] @
        str ''nDuration: " & trackDuration & " ms'' @ [0x5C] @
        str ''nPopularity: " & trackPopularity & "'' @ [0x5C] @
        str ''nID: " & trackId & "'' @ [0x5C] @
        str ''nURL: " & trackUrl'',
        str ''                else'',
        str ''                  return "No track is currently playing"'',
        str ''                end if'',
        str ''              end tell'',
        str ''            ''])\<close>

text \<open>
  The \<open>spotify_play_track\<close> case up to its call of the executor: both validations,
  the escaping and the template.
\<close>

definition playScript :: "(jsstring \<rightharpoonup> jsval) \<Rightarrow> error + jsstring" where
  \<open>playScript args =
     (if \<not> isValidSpotifyUri (getProperty args (str ''uri'')) then
        Inl (Error (str ''Invalid Spotify URI format''))
      else if truthy (getProperty args (str ''context''))
              \<and> \<not> isValidSpotifyUri (getProperty args (str ''context'')) then
        Inl (Error (str ''Invalid Spotify context URI format''))
      else
        let safeUri = escapeAppleScriptString (getProperty args (str ''uri''));
            safeContext =
              (if truthy (getProperty args (str ''context''))
               then JStr (escapeAppleScriptString (getProperty args (str ''context'')))
               else JNull)
        in Inr (if truthy safeContext
                then str ''tell application "Spotify" to play track "'' @ safeUri
                     @ str ''" in context "'' @ toString safeContext @ str ''"''
                else str ''tell application "Spotify" to play track "'' @ safeUri @ str ''"''))\<close>

text \<open>
  The \<open>switch\<close> on the tool name. Every case validates its arguments, builds one
  script and hands it to \<open>executeAppleScript\<close> once; this function is the part of each
  case before that call, and the \<open>default\<close> case.
\<close>

definition toolScript :: "jsstring \<Rightarrow> (jsstring \<rightharpoonup> jsval) \<Rightarrow> error + jsstring" where
  \<open>toolScript toolName args =
     (if toolName = str ''spotify_play'' then
        Inr (str ''tell application "Spotify" to play'')
      else if toolName = str ''spotify_pause'' then
        Inr (str ''tell application "Spotify" to pause'')
      else if toolName = str ''spotify_playpause'' then
        Inr (str ''tell application "Spotify" to playpause'')
      else if toolName = str ''spotify_next_track'' then
        Inr (str ''tell application "Spotify" to next track'')
      else if toolName = str ''spotify_previous_track'' then
        Inr (str ''tell application "Spotify" to previous track'')
      else if toolName = str ''spotify_play_track'' then
        playScript args
      else if toolName = str ''spotify_get_current_track'' then
        Inr currentTrackScript
      else if toolName = str ''spotify_get_player_state'' then
        Inr (str ''tell application "Spotify" to return player state as string'')
      else if toolName = str ''spotify_set_volume'' then
        (case validateInteger (getProperty args (str ''volume'')) (str ''volume'') (Fin 0) (Fin 100) of
           Inl e \<Rightarrow> Inl e
         | Inr safeVolume \<Rightarrow>
             Inr (str ''tell application "Spotify" to set sound volume to ''
                  @ toString (JNum safeVolume)))
      else if toolName = str ''spotify_get_volume'' then
        Inr (str ''tell application "Spotify" to return sound volume'')
      else if toolName = str ''spotify_set_position'' then
        (case validateNumber (getProperty args (str ''position'')) (str ''position'') (Fin 0) PosInf of
           Inl e \<Rightarrow> Inl e
         | Inr safePosition \<Rightarrow>
             Inr (str ''tell application "Spotify" to set player position to ''
                  @ toString (JNum safePosition)))
      else if toolName = str ''spotify_get_position'' then
        Inr (str ''tell application "Spotify" to return player position'')
      else if toolName = str ''spotify_set_repeat'' then
        (case validateBoolean (getProperty args (str ''enabled'')) (str ''enabled'') of
           Inl e \<Rightarrow> Inl e
         | Inr safeRepeat \<Rightarrow>
             Inr (str ''tell application "Spotify" to set repeating to ''
                  @ toString (JBool safeRepeat)))
      else if toolName = str ''spotify_get_repeat'' then
        Inr (str ''tell application "Spotify" to return repeating'')
      else if toolName = str ''spotify_set_shuffle'' then
        (case validateBoolean (getProperty args (str ''enabled'')) (str ''enabled'') of
           Inl e \<Rightarrow> Inl e
         | Inr safeShuffle \<Rightarrow>
             Inr (str ''tell application "Spotify" to set shuffling to ''
                  @ toString (JBool safeShuffle)))
      else if toolName = str ''spotify_get_shuffle'' then
        Inr (str ''tell application "Spotify" to return shuffling'')
      else Inl (Error (str ''Unknown tool: '' @ toolName)))\<close>

text \<open>The names of the catalogue, in the order of the tool list.\<close>

definition toolNames :: "jsstring list" where
  "toolNames =
     map str
       [''spotify_play'', ''spotify_pause'', ''spotify_playpause'', ''spotify_next_track'',
        ''spotify_previous_track'', ''spotify_play_track'', ''spotify_get_current_track'',
        ''spotify_get_player_state'', ''spotify_set_volume'', ''spotify_get_volume'',
        ''spotify_set_position'', ''spotify_get_position'', ''spotify_set_repeat'',
        ''spotify_get_repeat'', ''spotify_set_shuffle'', ''spotify_get_shuffle'']"

definition errorResponse :: "error \<Rightarrow> response" where
  "errorResponse e = \<lparr>content_text = str ''Error: '' @ message e, isError = Some True\<rparr>"

text \<open>
  The handler of a call request. \<open>Inl\<close> is an error thrown out of the handler (the
  returned promise rejects), \<open>Inr\<close> a response it returns; the second component lists
  the scripts handed to the executor during the call. The check of the tool name
  stands before the \<open>try\<close>; everything thrown after it is caught and turned into an
  error response.
\<close>

definition callToolHandler :: "executor \<Rightarrow> request \<Rightarrow> (error + response) \<times> jsstring list" where
  "callToolHandler osascript request =
     (case params_name request of
        None \<Rightarrow> (Inl (Error (str ''Tool name is required'')), [])
      | Some toolName \<Rightarrow>
          if toolName = [] then (Inl (Error (str ''Tool name is required'')), [])
          else
            let args = (case params_arguments request of None \<Rightarrow> Map.empty | Some a \<Rightarrow> a) in
            (case toolScript toolName args of
               Inl e \<Rightarrow> (Inr (errorResponse e), [])
             | Inr script \<Rightarrow>
                 (case executeAppleScript osascript script [] of
                    (Inl e, calls) \<Rightarrow> (Inr (errorResponse e), calls)
                  | (Inr result, calls) \<Rightarrow>
                      (Inr \<lparr>content_text = result, isError = None\<rparr>, calls))))"

section \<open>String literals of the target language\<close>

text \<open>
  The command goes to AppleScript, whose string literals stand between double quotes.
  Inside a literal a backslash starts an escape sequence, and the language has exactly
  five: \<open>\"\<close>, \<open>\\\<close>, \<open>\n\<close>, \<open>\r\<close> and \<open>\t\<close>; any other character after a backslash is
  a syntax error, and every character other than quote and backslash, a line break
  included, stands for itself.
\<close>

definition unescape :: "cu \<Rightarrow> cu option" where
  "unescape e =
     (if e = 0x22 then Some 0x22
      else if e = 0x5C then Some 0x5C
      else if e = 0x6E then Some 0x0A
      else if e = 0x72 then Some 0x0D
      else if e = 0x74 then Some 0x09
      else None)"

text \<open>
  A command is cut into the text outside string literals (\<open>Code\<close>) and the literals,
  each with the text it denotes (\<open>Literal\<close>). The scanner is outside a literal
  (\<open>False\<close>) or inside one (\<open>True\<close>); \<open>acc\<close> holds the current chunk, reversed. A
  command whose last literal is not closed, or with an unknown escape sequence, has no
  reading.
\<close>

datatype token = Code jsstring | Literal jsstring

definition code_chunk :: "jsstring \<Rightarrow> token list" where
  "code_chunk acc = (if acc = [] then [] else [Code (rev acc)])"

fun scan :: "bool \<Rightarrow> jsstring \<Rightarrow> jsstring \<Rightarrow> token list option" where
  "scan False acc [] = Some (code_chunk acc)"
| "scan True acc [] = None"
| "scan False acc (c # cs) =
     (if c = 0x22 then map_option (\<lambda>ts. code_chunk acc @ ts) (scan True [] cs)
      else scan False (c # acc) cs)"
| "scan True acc (c # cs) =
     (if c = 0x22 then map_option (\<lambda>ts. Literal (rev acc) # ts) (scan False [] cs)
      else if c = 0x5C then
        (case cs of
           [] \<Rightarrow> None
         | e # es \<Rightarrow>
             (case unescape e of
                None \<Rightarrow> None
              | Some x \<Rightarrow> scan True (x # acc) es))
      else scan True (c # acc) cs)"

definition tokens :: "jsstring \<Rightarrow> token list option" where
  "tokens command = scan False [] command"

text \<open>
  The code units AppleScript can denote in a literal, written there as themselves or by
  one of its five escapes: everything from \<open>0x20\<close> up, tab, line feed and carriage
  return, but no surrogate on its own. A text is plain when it has only such code units
  and surrogates in pairs.
\<close>

definition representable :: "cu \<Rightarrow> bool" where
  "representable c \<longleftrightarrow>
     (0x20 \<le> c \<or> c = 0x09 \<or> c = 0x0A \<or> c = 0x0D)
     \<and> \<not> is_lead_surrogate c \<and> \<not> is_trail_surrogate c"

fun plain_text :: "jsstring \<Rightarrow> bool" where
  "plain_text [] = True"
| "plain_text [c] = representable c"
| "plain_text (c # d # ds) =
     (if is_lead_surrogate c \<and> is_trail_surrogate d then plain_text ds
      else representable c \<and> plain_text (d # ds))"

section \<open>The grammar of Spotify URIs, as the specification words it\<close>

text \<open>
  \<open>spotify:<type>:<segment>(:<segment>)*\<close> with \<open><type>\<close> one of track, album, artist,
  playlist, show, episode, user, collection, and each \<open><segment>\<close> one or more ASCII
  letters or digits.
\<close>

definition is_alphanumeric :: "cu \<Rightarrow> bool" where
  "is_alphanumeric c \<longleftrightarrow>
     (0x30 \<le> c \<and> c \<le> 0x39) \<or> (0x41 \<le> c \<and> c \<le> 0x5A) \<or> (0x61 \<le> c \<and> c \<le> 0x7A)"

definition is_segment :: "jsstring \<Rightarrow> bool" where
  "is_segment g \<longleftrightarrow> g \<noteq> [] \<and> list_all is_alphanumeric g"

definition grammar_types :: "jsstring set" where
  "grammar_types =
     {str ''track'', str ''album'', str ''artist'', str ''playlist'', str ''show'',
      str ''episode'', str ''user'', str ''collection''}"

definition spotify_uri_grammar :: "jsstring \<Rightarrow> bool" where
  "spotify_uri_grammar s \<longleftrightarrow>
     (\<exists>t g gs. t \<in> grammar_types \<and> list_all is_segment (g # gs)
        \<and> s = str ''spotify:'' @ t @ [0x3A] @ g @ concat (map (\<lambda>h. 0x3A # h) gs))"

section \<open>The language of a regular expression\<close>

definition conc :: "jsstring set \<Rightarrow> jsstring set \<Rightarrow> jsstring set" where
  "conc A B = {xs @ ys | xs ys. xs \<in> A \<and> ys \<in> B}"

inductive_set star :: "jsstring set \<Rightarrow> jsstring set" for A :: "jsstring set" where
  star_empty: "[] \<in> star A"
| star_step: "w \<in> A \<Longrightarrow> ws \<in> star A \<Longrightarrow> w @ ws \<in> star A"

fun lang :: "regex \<Rightarrow> jsstring set" where
  "lang Zero = {}"
| "lang One = {[]}"
| "lang (Lit c) = {[c]}"
| "lang (Range a b) = {[c] | c. a \<le> c \<and> c \<le> b}"
| "lang (Alt r s) = lang r \<union> lang s"
| "lang (Seq r s) = conc (lang r) (lang s)"
| "lang (Star r) = star (lang r)"

text \<open>The language of one \<open>:<segment>\<close> group of the pattern.\<close>

definition colon_segments :: "jsstring set" where
  "colon_segments = {0x3A # g | g. is_segment g}"

text \<open>The characters a string of the grammar is made of: letters, digits and the colon.\<close>

definition is_uri_char :: "cu \<Rightarrow> bool" where
  "is_uri_char c \<longleftrightarrow> is_alphanumeric c \<or> c = 0x3A"

section \<open>Executors for concrete runs\<close>

text \<open>An executor that succeeds with a fixed output, whatever the script.\<close>

definition stub_executor :: "proc_output \<Rightarrow> executor" where
  "stub_executor out = (\<lambda>script. Inr out)"

text \<open>Sample values.\<close>

definition example_uri :: jsstring where
  "example_uri = str ''spotify:track:4uLU6hMCjMI75M1A2tKUQC''"

definition example_context :: jsstring where
  "example_context = str ''spotify:album:2noRn2Aes5aoNVsU6iWThc''"

definition silent :: proc_output where
  "silent = \<lparr>stdout = [], stderr = []\<rparr>"

section \<open>The matcher decides the language\<close>

lemma conc_iff: "w \<in> conc A B \<longleftrightarrow> (\<exists>xs ys. w = xs @ ys \<and> xs \<in> A \<and> ys \<in> B)"
  by (auto simp: conc_def)

lemma nil_in_conc: "[] \<in> conc A B \<longleftrightarrow> [] \<in> A \<and> [] \<in> B"
  by (auto simp: conc_iff)

lemma cons_in_conc:
  "c # w \<in> conc A B \<longleftrightarrow>
     (\<exists>u v. w = u @ v \<and> c # u \<in> A \<and> v \<in> B) \<or> ([] \<in> A \<and> c # w \<in> B)"
proof
  assume "c # w \<in> conc A B"
  then obtain xs ys where split: "c # w = xs @ ys" and xs: "xs \<in> A" and ys: "ys \<in> B"
    by (auto simp: conc_iff)
  show "(\<exists>u v. w = u @ v \<and> c # u \<in> A \<and> v \<in> B) \<or> ([] \<in> A \<and> c # w \<in> B)"
  proof (cases xs)
    case Nil
    with split xs ys show ?thesis by simp
  next
    case (Cons x u)
    with split have "x = c" and "w = u @ ys" by simp_all
    with Cons xs ys show ?thesis by blast
  qed
next
  assume "(\<exists>u v. w = u @ v \<and> c # u \<in> A \<and> v \<in> B) \<or> ([] \<in> A \<and> c # w \<in> B)"
  then show "c # w \<in> conc A B"
  proof
    assume "\<exists>u v. w = u @ v \<and> c # u \<in> A \<and> v \<in> B"
    then obtain u v where "w = u @ v" "c # u \<in> A" "v \<in> B" by blast
    then have "c # w = (c # u) @ v" by simp
    with \<open>c # u \<in> A\<close> \<open>v \<in> B\<close> show ?thesis unfolding conc_iff by blast
  next
    assume "[] \<in> A \<and> c # w \<in> B"
    then have "c # w = [] @ (c # w)" "[] \<in> A" "c # w \<in> B" by simp_all
    then show ?thesis unfolding conc_iff by blast
  qed
qed

lemma star_cons_split:
  "x \<in> star A \<Longrightarrow> x = c # w \<Longrightarrow> \<exists>u v. w = u @ v \<and> c # u \<in> A \<and> v \<in> star A"
proof (induction arbitrary: w rule: star.induct)
  case star_empty
  then show ?case by simp
next
  case (star_step y ys)
  show ?case
  proof (cases y)
    case Nil
    with star_step show ?thesis by simp
  next
    case (Cons d u)
    with star_step.prems have "d = c" and "w = u @ ys" by simp_all
    with Cons star_step.hyps show ?thesis by blast
  qed
qed

lemma cons_in_star:
  "c # w \<in> star A \<longleftrightarrow> (\<exists>u v. w = u @ v \<and> c # u \<in> A \<and> v \<in> star A)"
proof
  assume "c # w \<in> star A"
  then show "\<exists>u v. w = u @ v \<and> c # u \<in> A \<and> v \<in> star A"
    by (rule star_cons_split) simp
next
  assume "\<exists>u v. w = u @ v \<and> c # u \<in> A \<and> v \<in> star A"
  then obtain u v where w: "w = u @ v" and "c # u \<in> A" and "v \<in> star A" by blast
  then have "(c # u) @ v \<in> star A" by (intro star_step)
  with w show "c # w \<in> star A" by simp
qed

lemma nullable_iff: "nullable r \<longleftrightarrow> [] \<in> lang r"
  by (induction r) (auto simp: nil_in_conc intro: star_empty)

lemma lang_deriv: "w \<in> lang (deriv c r) \<longleftrightarrow> c # w \<in> lang r"
proof (induction r arbitrary: w)
  case (Seq r1 r2)
  have "w \<in> lang (deriv c (Seq r1 r2)) \<longleftrightarrow>
          (\<exists>u v. w = u @ v \<and> u \<in> lang (deriv c r1) \<and> v \<in> lang r2)
          \<or> (nullable r1 \<and> w \<in> lang (deriv c r2))"
    by (auto simp: conc_iff)
  also have "\<dots> \<longleftrightarrow>
          (\<exists>u v. w = u @ v \<and> c # u \<in> lang r1 \<and> v \<in> lang r2)
          \<or> ([] \<in> lang r1 \<and> c # w \<in> lang r2)"
    by (simp add: Seq nullable_iff)
  also have "\<dots> \<longleftrightarrow> c # w \<in> conc (lang r1) (lang r2)"
    by (simp only: cons_in_conc)
  finally show ?case by simp
next
  case (Star r)
  have "w \<in> lang (deriv c (Star r)) \<longleftrightarrow>
          (\<exists>u v. w = u @ v \<and> u \<in> lang (deriv c r) \<and> v \<in> star (lang r))"
    by (auto simp: conc_iff)
  also have "\<dots> \<longleftrightarrow> (\<exists>u v. w = u @ v \<and> c # u \<in> lang r \<and> v \<in> star (lang r))"
    by (simp add: Star)
  also have "\<dots> \<longleftrightarrow> c # w \<in> star (lang r)"
    by (simp only: cons_in_star)
  finally show ?case by simp
qed auto

lemma regex_test_iff: "regex_test r s \<longleftrightarrow> s \<in> lang r"
  by (induction s arbitrary: r) (simp_all add: nullable_iff lang_deriv)


lemma conc_singletons: "conc {p} {q} = {p @ q}"
  by (auto simp: conc_def)

lemma lang_chars: "lang (chars w) = {w}"
  by (induction w) (simp_all add: conc_singletons)

lemma lang_alts: "lang (alts rs) = (\<Union>r\<in>set rs. lang r)"
  by (induction rs) auto

lemma lang_Plus: "lang (Plus r) = conc (lang r) (star (lang r))"
  by (simp add: Plus_def)

lemma star_concat: "x \<in> star A \<longleftrightarrow> (\<exists>ws. x = concat ws \<and> set ws \<subseteq> A)"
proof
  assume "x \<in> star A"
  then show "\<exists>ws. x = concat ws \<and> set ws \<subseteq> A"
  proof (induction rule: star.induct)
    case star_empty
    have "[] = concat [] \<and> set [] \<subseteq> A" by simp
    then show ?case by blast
  next
    case (star_step w ws)
    then obtain vs where "ws = concat vs" "set vs \<subseteq> A" by blast
    with star_step.hyps have "w @ ws = concat (w # vs) \<and> set (w # vs) \<subseteq> A" by simp
    then show ?case by blast
  qed
next
  assume "\<exists>ws. x = concat ws \<and> set ws \<subseteq> A"
  then obtain ws where x: "x = concat ws" and ws: "set ws \<subseteq> A" by blast
  from ws have "concat ws \<in> star A"
    by (induction ws) (auto intro: star_empty star_step)
  with x show "x \<in> star A" by simp
qed

lemma lang_alnum_class: "lang alnum_class = {[c] | c. is_alphanumeric c}"
  unfolding alnum_class_def is_alphanumeric_def lang.simps by blast

lemma star_singletons: "x \<in> star {[c] | c. P c} \<longleftrightarrow> list_all P x"
proof
  assume "x \<in> star {[c] | c. P c}"
  then show "list_all P x"
    by (induction rule: star.induct) auto
next
  assume "list_all P x"
  then show "x \<in> star {[c] | c. P c}"
  proof (induction x)
    case Nil
    show ?case by (rule star_empty)
  next
    case (Cons c cs)
    then have "[c] \<in> {[c] | c. P c}" and "cs \<in> star {[c] | c. P c}" by simp_all
    then have "[c] @ cs \<in> star {[c] | c. P c}" by (rule star_step)
    then show ?case by simp
  qed
qed

lemma lang_segment: "g \<in> lang (Plus alnum_class) \<longleftrightarrow> is_segment g"
proof
  assume "g \<in> lang (Plus alnum_class)"
  then obtain xs ys where "g = xs @ ys" "xs \<in> {[c] | c. is_alphanumeric c}"
    "ys \<in> star {[c] | c. is_alphanumeric c}"
    by (auto simp: lang_Plus lang_alnum_class conc_iff)
  then show "is_segment g"
    by (auto simp: is_segment_def star_singletons)
next
  assume "is_segment g"
  then obtain c cs where g: "g = [c] @ cs" and c: "is_alphanumeric c"
    and cs: "list_all is_alphanumeric cs"
    by (cases g) (auto simp: is_segment_def)
  from c have "[c] \<in> lang alnum_class" by (simp add: lang_alnum_class)
  moreover from cs have "cs \<in> star (lang alnum_class)"
    by (simp add: lang_alnum_class star_singletons)
  ultimately have "[c] @ cs \<in> conc (lang alnum_class) (star (lang alnum_class))"
    unfolding conc_iff by blast
  with g show "g \<in> lang (Plus alnum_class)" by (simp add: lang_Plus)
qed

lemma lang_colon_segment: "lang (Seq (Lit 0x3A) (Plus alnum_class)) = colon_segments"
proof -
  have "x \<in> lang (Seq (Lit 0x3A) (Plus alnum_class)) \<longleftrightarrow> x \<in> colon_segments" for x
  proof -
    have "x \<in> lang (Seq (Lit 0x3A) (Plus alnum_class)) \<longleftrightarrow>
            (\<exists>g. x = 0x3A # g \<and> g \<in> lang (Plus alnum_class))"
      by (auto simp: conc_iff)
    then show ?thesis by (simp add: lang_segment colon_segments_def)
  qed
  then show ?thesis by blast
qed

lemma star_colon_segments:
  "x \<in> star colon_segments \<longleftrightarrow>
     (\<exists>gs. list_all is_segment gs \<and> x = concat (map (\<lambda>h. 0x3A # h) gs))"
proof
  assume "x \<in> star colon_segments"
  then show "\<exists>gs. list_all is_segment gs \<and> x = concat (map (\<lambda>h. 0x3A # h) gs)"
  proof (induction rule: star.induct)
    case star_empty
    have "list_all is_segment [] \<and> [] = concat (map (\<lambda>h. 0x3A # h) [])" by simp
    then show ?case by blast
  next
    case (star_step w ws)
    then obtain g gs where "w = 0x3A # g" "is_segment g" "list_all is_segment gs"
      "ws = concat (map (\<lambda>h. 0x3A # h) gs)"
      by (auto simp: colon_segments_def)
    then have "list_all is_segment (g # gs) \<and> w @ ws = concat (map (\<lambda>h. 0x3A # h) (g # gs))"
      by simp
    then show ?case by blast
  qed
next
  assume "\<exists>gs. list_all is_segment gs \<and> x = concat (map (\<lambda>h. 0x3A # h) gs)"
  then obtain gs where gs: "list_all is_segment gs" and x: "x = concat (map (\<lambda>h. 0x3A # h) gs)"
    by blast
  from gs have "concat (map (\<lambda>h. 0x3A # h) gs) \<in> star colon_segments"
  proof (induction gs)
    case Nil
    show ?case by (simp add: star_empty)
  next
    case (Cons g gs)
    then have "0x3A # g \<in> colon_segments"
      and "concat (map (\<lambda>h. 0x3A # h) gs) \<in> star colon_segments"
      by (simp_all add: colon_segments_def)
    then have "(0x3A # g) @ concat (map (\<lambda>h. 0x3A # h) gs) \<in> star colon_segments"
      by (rule star_step)
    then show ?case by simp
  qed
  with x show "x \<in> star colon_segments" by simp
qed

lemma lang_segments:
  "x \<in> lang (Plus (Seq (Lit 0x3A) (Plus alnum_class))) \<longleftrightarrow>
     (\<exists>g gs. list_all is_segment (g # gs) \<and> x = [0x3A] @ g @ concat (map (\<lambda>h. 0x3A # h) gs))"
proof -
  have "x \<in> lang (Plus (Seq (Lit 0x3A) (Plus alnum_class))) \<longleftrightarrow>
          (\<exists>u v. x = u @ v \<and> u \<in> colon_segments \<and> v \<in> star colon_segments)"
    by (simp only: lang_Plus lang_colon_segment conc_iff)
  also have "\<dots> \<longleftrightarrow>
          (\<exists>g gs. list_all is_segment (g # gs) \<and> x = [0x3A] @ g @ concat (map (\<lambda>h. 0x3A # h) gs))"
  proof
    assume "\<exists>u v. x = u @ v \<and> u \<in> colon_segments \<and> v \<in> star colon_segments"
    then obtain u v where x: "x = u @ v" and u: "u \<in> colon_segments"
      and v: "v \<in> star colon_segments"
      by blast
    from u obtain g where "u = 0x3A # g" "is_segment g"
      by (auto simp: colon_segments_def)
    moreover from v obtain gs where "list_all is_segment gs"
      "v = concat (map (\<lambda>h. 0x3A # h) gs)"
      unfolding star_colon_segments by blast
    ultimately have "x = (0x3A # g) @ concat (map (\<lambda>h. 0x3A # h) gs)"
      "is_segment g" "list_all is_segment gs"
      using x by simp_all
    then have "list_all is_segment (g # gs) \<and> x = [0x3A] @ g @ concat (map (\<lambda>h. 0x3A # h) gs)"
      by simp
    then show "\<exists>g gs. list_all is_segment (g # gs)
        \<and> x = [0x3A] @ g @ concat (map (\<lambda>h. 0x3A # h) gs)"
      by blast
  next
    assume "\<exists>g gs. list_all is_segment (g # gs)
        \<and> x = [0x3A] @ g @ concat (map (\<lambda>h. 0x3A # h) gs)"
    then obtain g gs where g: "is_segment g" and gs: "list_all is_segment gs"
      and x: "x = (0x3A # g) @ concat (map (\<lambda>h. 0x3A # h) gs)"
      by auto
    from g have "0x3A # g \<in> colon_segments" by (auto simp: colon_segments_def)
    moreover from gs have "concat (map (\<lambda>h. 0x3A # h) gs) \<in> star colon_segments"
      unfolding star_colon_segments by blast
    ultimately show "\<exists>u v. x = u @ v \<and> u \<in> colon_segments \<and> v \<in> star colon_segments"
      using x by blast
  qed
  finally show ?thesis .
qed

lemma conc_singleton: "w \<in> conc {p} B \<longleftrightarrow> (\<exists>v. w = p @ v \<and> v \<in> B)"
  by (auto simp: conc_iff)

lemma lang_types: "lang (alts (map chars uri_types)) = grammar_types"
  by (simp add: uri_types_def grammar_types_def lang_chars, blast)

lemma lang_spotifyUriPattern: "s \<in> lang spotifyUriPattern \<longleftrightarrow> spotify_uri_grammar s"
proof -
  have "s \<in> lang spotifyUriPattern \<longleftrightarrow>
          (\<exists>v. s = str ''spotify:'' @ v
             \<and> v \<in> conc grammar_types (lang (Plus (Seq (Lit 0x3A) (Plus alnum_class)))))"
    by (simp only: spotifyUriPattern_def lang.simps(6) lang_chars lang_types conc_singleton)
  also have "\<dots> \<longleftrightarrow>
          (\<exists>t x. s = str ''spotify:'' @ t @ x \<and> t \<in> grammar_types
             \<and> x \<in> lang (Plus (Seq (Lit 0x3A) (Plus alnum_class))))"
    unfolding conc_iff by blast
  also have "\<dots> \<longleftrightarrow> spotify_uri_grammar s"
    unfolding lang_segments spotify_uri_grammar_def by blast
  finally show ?thesis .
qed

lemma isValidSpotifyUri_iff:
  "isValidSpotifyUri v \<longleftrightarrow> (\<exists>s. v = JStr s \<and> spotify_uri_grammar s)"
  by (cases v) (simp_all add: isValidSpotifyUri_def regex_test_iff lang_spotifyUriPattern)

section \<open>Concrete numbers\<close>

lemma floor_log2_values:
  "floor_log2 1 = 0" "floor_log2 2 = 1" "floor_log2 10 = 3" "floor_log2 50 = 5"
  "floor_log2 60 = 5" "floor_log2 100 = 6" "floor_log2 200 = 7" "floor_log2 1000 = 9"
  by (simp_all add: floor_log2_def bitlen_def compute_floorlog Let_def)

lemma round_double_values:
  "round_double 1 = Fin 1" "round_double 2 = Fin 2" "round_double 10 = Fin 10"
  "round_double 50 = Fin 50" "round_double 60 = Fin 60" "round_double 100 = Fin 100"
  "round_double 200 = Fin 200" "round_double 1000 = Fin 1000"
  by (simp_all add: round_double_def floor_log2_values Let_def round_half_even_def)

lemma decimal_exponent_values:
  "decimal_exponent 1 = 1" "decimal_exponent 50 = 2" "decimal_exponent 100 = 3"
  by (simp_all add: decimal_exponent_def compute_floorlog)

lemma floor_rat_numeral_divide: "\<lfloor>numeral a / numeral b :: rat\<rfloor> = numeral a div numeral b"
  using floor_divide_of_int_eq [of "numeral a" "numeral b", where ?'a = rat] by simp

lemma floor_rat_one_divide: "\<lfloor>1 / numeral b :: rat\<rfloor> = 1 div numeral b"
  using floor_divide_of_int_eq [of 1 "numeral b", where ?'a = rat] by simp

lemma candidates_values:
  "candidates 1 1 = [(1, 1)]" "candidates 50 1 = [(2, 5)]" "candidates 100 1 = [(3, 1)]"
  by (simp_all add: candidates_def decimal_exponent_values round_double_values
      floor_rat_numeral_divide floor_rat_one_divide)

lemma shortest_digits_one:
  "candidates x 1 = [c] \<Longrightarrow> shortest_digits x [1 ..< 18] = Some (fst c, 1, snd c)"
  by (subst upt_rec) simp

lemma positiveToString_values:
  "positiveToString 1 = str ''1''"
  "positiveToString 50 = str ''50''"
  "positiveToString 100 = str ''100''"
  unfolding positiveToString_def shortest_digits_one [OF candidates_values(1)]
    shortest_digits_one [OF candidates_values(2)] shortest_digits_one [OF candidates_values(3)]
  by (simp_all add: natToDigits.simps str_def numeral_2_eq_2)

lemma numberToString_values:
  "numberToString (Fin 0) = str ''0''"
  "numberToString (Fin 1) = str ''1''"
  "numberToString (Fin 50) = str ''50''"
  "numberToString (Fin 100) = str ''100''"
  by (simp_all add: positiveToString_values)

lemma stringToNumber_50: "stringToNumber (str ''50'') = Fin 50"
  by (simp add: stringToNumber_def str_def trim_def is_ws_def parse_radix_prefix_def
      parse_decimal_def is_digit_def digit_value_def parse_exponent_def round_double_values)

lemma stringToNumber_abc: "stringToNumber (str ''abc'') = NaN"
  by (simp add: stringToNumber_def str_def trim_def is_ws_def parse_radix_prefix_def
      parse_decimal_def is_digit_def digit_value_def parse_exponent_def)

section \<open>Escaping and scanning\<close>

lemma length_quote: "int (length ([0x22] @ q @ [0x22 :: cu])) = int (length q) + 2"
  by simp

lemma escape_JStr: "escapeAppleScriptString (JStr s) = quoteChars s"
  by (simp add: escapeAppleScriptString_def JSON_stringify_def slice_def Let_def)

lemma escape_not_string: "typeof v \<noteq> TString \<Longrightarrow> escapeAppleScriptString v = []"
  by (cases v) (simp_all add: escapeAppleScriptString_def)

lemma uri_char_unat: "is_uri_char c \<Longrightarrow> 0x30 \<le> unat c \<and> unat c \<le> 0x7A"
  by (auto simp: is_uri_char_def is_alphanumeric_def word_le_nat_alt)

lemma uri_char_not_quote: "is_uri_char c \<Longrightarrow> c \<noteq> 0x22 \<and> c \<noteq> 0x5C"
  by (auto simp: is_uri_char_def is_alphanumeric_def)

lemma quoteUnit_plain:
  "0x20 \<le> unat c \<Longrightarrow> c \<noteq> 0x22 \<Longrightarrow> c \<noteq> 0x5C \<Longrightarrow> unat c < 0xD800 \<or> 0xDFFF < unat c
    \<Longrightarrow> quoteUnit c = [c]"
  by (auto simp: quoteUnit_def is_lead_surrogate_def is_trail_surrogate_def
      word_le_nat_alt word_less_nat_alt)

lemma quoteUnit_uri_char: "is_uri_char c \<Longrightarrow> quoteUnit c = [c]"
  using uri_char_unat [of c] uri_char_not_quote [of c] by (intro quoteUnit_plain) auto

lemma uri_char_not_lead: "is_uri_char c \<Longrightarrow> \<not> is_lead_surrogate c"
  using uri_char_unat [of c] by (auto simp: is_lead_surrogate_def word_le_nat_alt)

lemma quoteChars_uri_chars: "list_all is_uri_char s \<Longrightarrow> quoteChars s = s"
  by (induction s rule: quoteChars.induct)
    (simp_all add: quoteUnit_uri_char uri_char_not_lead)


lemma alphanumeric_uri_char: "is_alphanumeric c \<Longrightarrow> is_uri_char c"
  by (simp add: is_uri_char_def)

lemma segment_uri_chars: "is_segment g \<Longrightarrow> list_all is_uri_char g"
  by (simp add: is_segment_def list_all_iff alphanumeric_uri_char)

lemma segments_uri_chars:
  "list_all is_segment gs \<Longrightarrow> list_all is_uri_char (concat (map (\<lambda>h. 0x3A # h) gs))"
  by (induction gs) (simp_all add: segment_uri_chars is_uri_char_def)

lemma types_uri_chars: "t \<in> grammar_types \<Longrightarrow> list_all is_uri_char t"
  by (auto simp: grammar_types_def str_def is_uri_char_def is_alphanumeric_def)

lemma grammar_uri_chars:
  assumes "spotify_uri_grammar s"
  shows "list_all is_uri_char s"
proof -
  from assms obtain t g gs where t: "t \<in> grammar_types" and g: "is_segment g"
    and gs: "list_all is_segment gs"
    and s: "s = str ''spotify:'' @ t @ [0x3A] @ g @ concat (map (\<lambda>h. 0x3A # h) gs)"
    by (auto simp: spotify_uri_grammar_def)
  have "list_all is_uri_char (str ''spotify:'')"
    by (simp add: str_def is_uri_char_def is_alphanumeric_def)
  with t g gs show ?thesis
    unfolding s
    by (simp add: types_uri_chars segment_uri_chars segments_uri_chars is_uri_char_def)
qed

lemma grammar_nonempty: "spotify_uri_grammar s \<Longrightarrow> s \<noteq> []"
  by (auto simp: spotify_uri_grammar_def str_def)

lemma scan_code:
  "0x22 \<notin> set s \<Longrightarrow> scan False acc (s @ rest) = scan False (rev s @ acc) rest"
  by (induction s arbitrary: acc) auto

lemma scan_literal:
  "0x22 \<notin> set s \<Longrightarrow> 0x5C \<notin> set s \<Longrightarrow> scan True acc (s @ rest) = scan True (rev s @ acc) rest"
  by (induction s arbitrary: acc) auto

lemma uri_chars_no_quote: "list_all is_uri_char s \<Longrightarrow> 0x22 \<notin> set s \<and> 0x5C \<notin> set s"
  using uri_char_not_quote by (auto simp: list_all_iff)

lemma scan_literal_uri:
  "list_all is_uri_char s \<Longrightarrow> scan True [] (s @ 0x22 # rest) = map_option (\<lambda>ts. Literal s # ts) (scan False [] rest)"
  using uri_chars_no_quote [of s] by (simp add: scan_literal)

lemma tokens_play_track:
  \<open>list_all is_uri_char u \<Longrightarrow>
   tokens (str ''tell application "Spotify" to play track "'' @ u @ str ''"'') =
     Some [Code (str ''tell application ''), Literal (str ''Spotify''),
           Code (str '' to play track ''), Literal u]\<close>
  by (simp add: tokens_def str_def scan_literal_uri code_chunk_def)

lemma tokens_play_track_in_context:
  \<open>list_all is_uri_char u \<Longrightarrow> list_all is_uri_char c \<Longrightarrow>
   tokens (str ''tell application "Spotify" to play track "'' @ u @ str ''" in context "'' @ c
           @ str ''"'') =
     Some [Code (str ''tell application ''), Literal (str ''Spotify''),
           Code (str '' to play track ''), Literal u, Code (str '' in context ''), Literal c]\<close>
  by (simp add: tokens_def str_def scan_literal_uri code_chunk_def)

section \<open>The \<open>spotify_play_track\<close> case\<close>

lemma playScript_invalid_uri:
  \<open>\<not> isValidSpotifyUri (getProperty args (str ''uri'')) \<Longrightarrow>
   playScript args = Inl (Error (str ''Invalid Spotify URI format''))\<close>
  by (simp add: playScript_def)

lemma playScript_invalid_context:
  \<open>isValidSpotifyUri (getProperty args (str ''uri'')) \<Longrightarrow>
   truthy (getProperty args (str ''context'')) \<Longrightarrow>
   \<not> isValidSpotifyUri (getProperty args (str ''context'')) \<Longrightarrow>
   playScript args = Inl (Error (str ''Invalid Spotify context URI format''))\<close>
  by (simp add: playScript_def)

lemma escape_valid:
  "isValidSpotifyUri v \<Longrightarrow> \<exists>u. v = JStr u \<and> list_all is_uri_char u \<and> u \<noteq> [] \<and> escapeAppleScriptString v = u"
  by (auto simp: isValidSpotifyUri_iff escape_JStr grammar_uri_chars grammar_nonempty
      quoteChars_uri_chars)

lemma playScript_no_context:
  \<open>isValidSpotifyUri (JStr u) \<Longrightarrow> getProperty args (str ''uri'') = JStr u \<Longrightarrow>
   \<not> truthy (getProperty args (str ''context'')) \<Longrightarrow>
   playScript args = Inr (str ''tell application "Spotify" to play track "'' @ u @ str ''"'')\<close>
  using escape_valid [of "JStr u"] by (simp add: playScript_def)

lemma playScript_context:
  \<open>isValidSpotifyUri (JStr u) \<Longrightarrow> getProperty args (str ''uri'') = JStr u \<Longrightarrow>
   isValidSpotifyUri (JStr c) \<Longrightarrow> getProperty args (str ''context'') = JStr c \<Longrightarrow>
   playScript args =
     Inr (str ''tell application "Spotify" to play track "'' @ u @ str ''" in context "'' @ c
          @ str ''"'')\<close>
  using escape_valid [of "JStr u"] escape_valid [of "JStr c"] by (simp add: playScript_def)

section \<open>The handler\<close>

lemmas regex_eval = isValidSpotifyUri_def spotifyUriPattern_def uri_types_def alnum_class_def
  Plus_def str_def

lemma example_uri_valid: "isValidSpotifyUri (JStr example_uri)"
  by (simp add: example_uri_def regex_eval)

lemma example_context_valid: "isValidSpotifyUri (JStr example_context)"
  by (simp add: example_context_def regex_eval)

lemma str_uri_context: \<open>str ''uri'' \<noteq> str ''context''\<close> \<open>str ''context'' \<noteq> str ''uri''\<close>
  by (simp_all add: str_def)


lemma callToolHandler_rejected:
  "toolName \<noteq> [] \<Longrightarrow>
   toolScript toolName (case a of None \<Rightarrow> Map.empty | Some m \<Rightarrow> m) = Inl e \<Longrightarrow>
   callToolHandler osascript \<lparr>params_name = Some toolName, params_arguments = a\<rparr> =
     (Inr (errorResponse e), [])"
  by (simp add: callToolHandler_def)

lemma callToolHandler_executed:
  "toolName \<noteq> [] \<Longrightarrow>
   toolScript toolName (case a of None \<Rightarrow> Map.empty | Some m \<Rightarrow> m) = Inr script \<Longrightarrow>
   callToolHandler osascript \<lparr>params_name = Some toolName, params_arguments = a\<rparr> =
     (case osascript script of
        Inl e \<Rightarrow> Inr (errorResponse e)
      | Inr out \<Rightarrow> Inr \<lparr>content_text = trim (stdout out), isError = None\<rparr>,
      [script])"
  by (simp add: callToolHandler_def executeAppleScript_def split: sum.splits)

lemma toolScript_play_track: \<open>toolScript (str ''spotify_play_track'') args = playScript args\<close>
  by (simp add: toolScript_def str_def)

lemma toolScript_set_volume:
  \<open>toolScript (str ''spotify_set_volume'') args =
     (case validateInteger (getProperty args (str ''volume'')) (str ''volume'') (Fin 0) (Fin 100) of
        Inl e \<Rightarrow> Inl e
      | Inr safeVolume \<Rightarrow>
          Inr (str ''tell application "Spotify" to set sound volume to ''
               @ toString (JNum safeVolume)))\<close>
  by (simp add: toolScript_def str_def)

lemma toolScript_set_repeat:
  \<open>toolScript (str ''spotify_set_repeat'') args =
     (case validateBoolean (getProperty args (str ''enabled'')) (str ''enabled'') of
        Inl e \<Rightarrow> Inl e
      | Inr safeRepeat \<Rightarrow>
          Inr (str ''tell application "Spotify" to set repeating to ''
               @ toString (JBool safeRepeat)))\<close>
  by (simp add: toolScript_def str_def)

lemma toolScript_set_shuffle:
  \<open>toolScript (str ''spotify_set_shuffle'') args =
     (case validateBoolean (getProperty args (str ''enabled'')) (str ''enabled'') of
        Inl e \<Rightarrow> Inl e
      | Inr safeShuffle \<Rightarrow>
          Inr (str ''tell application "Spotify" to set shuffling to ''
               @ toString (JBool safeShuffle)))\<close>
  by (simp add: toolScript_def str_def)

lemma toolScript_unknown:
  \<open>toolName \<notin> set toolNames \<Longrightarrow>
   toolScript toolName args = Inl (Error (str ''Unknown tool: '' @ toolName))\<close>
  by (simp add: toolScript_def toolNames_def)

lemma tool_names_nonempty:
  \<open>str ''spotify_play_track'' \<noteq> []\<close> \<open>str ''spotify_set_volume'' \<noteq> []\<close>
  \<open>str ''spotify_set_repeat'' \<noteq> []\<close> \<open>str ''spotify_set_shuffle'' \<noteq> []\<close>
  by (simp_all add: str_def)


lemma errorResponse_text:
  "errorResponse (Error m) = \<lparr>content_text = str ''Error: '' @ m, isError = Some True\<rparr>"
  by (simp add: errorResponse_def)

lemma str_append: "str a @ str b = str (a @ b)"
  by (simp add: str_def)

lemma rejected_response:
  "toolName \<noteq> [] \<Longrightarrow> toolScript toolName args = Inl (Error m) \<Longrightarrow>
   callToolHandler osascript \<lparr>params_name = Some toolName, params_arguments = Some args\<rparr> =
     (Inr \<lparr>content_text = str ''Error: '' @ m, isError = Some True\<rparr>, [])"
  by (simp add: callToolHandler_def errorResponse_def)

lemma play_track_invalid_uri:
  assumes \<open>\<not> isValidSpotifyUri (getProperty args (str ''uri''))\<close>
  shows \<open>callToolHandler osascript
     \<lparr>params_name = Some (str ''spotify_play_track''), params_arguments = Some args\<rparr> =
   (Inr \<lparr>content_text = str ''Error: Invalid Spotify URI format'', isError = Some True\<rparr>, [])\<close>
proof -
  from assms have \<open>toolScript (str ''spotify_play_track'') args =
      Inl (Error (str ''Invalid Spotify URI format''))\<close>
    by (simp add: toolScript_play_track playScript_invalid_uri)
  with tool_names_nonempty(1) have \<open>callToolHandler osascript
     \<lparr>params_name = Some (str ''spotify_play_track''), params_arguments = Some args\<rparr> =
     (Inr \<lparr>content_text = str ''Error: '' @ str ''Invalid Spotify URI format'',
            isError = Some True\<rparr>, [])\<close>
    by (rule rejected_response)
  then show ?thesis by (simp add: str_append)
qed

lemma rejected_examples:
  \<open>\<not> isValidSpotifyUri (JStr (str ''not-a-uri''))\<close>
  \<open>\<not> isValidSpotifyUri (JStr (str ''spotify:track:''))\<close>
  \<open>\<not> isValidSpotifyUri (JStr (str ''spotify:track:has space''))\<close>
  \<open>\<not> isValidSpotifyUri (JNum (Fin 5))\<close>
  \<open>\<not> isValidSpotifyUri JUndefined\<close>
  by (simp_all add: regex_eval)

lemma validateInteger_out_of_range:
  assumes "i < 0 \<or> 100 < i"
  shows \<open>validateInteger (JNum (Fin (of_int i))) (str ''volume'') (Fin 0) (Fin 100) =
    Inl (Error (str ''volume must be between 0 and 100''))\<close>
proof -
  have \<open>str ''volume'' @ str '' must be between '' @ str ''0'' @ str '' and '' @ str ''100'' =
      str ''volume must be between 0 and 100''\<close>
    by (simp add: str_append)
  with assms show ?thesis
    by (auto simp: validateInteger_def Number_isInteger_def positiveToString_values)
qed

lemma executed_response:
  "toolName \<noteq> [] \<Longrightarrow> toolScript toolName args = Inr script \<Longrightarrow> osascript script = Inr out \<Longrightarrow>
   callToolHandler osascript \<lparr>params_name = Some toolName, params_arguments = Some args\<rparr> =
     (Inr \<lparr>content_text = trim (stdout out), isError = None\<rparr>, [script])"
  by (simp add: callToolHandler_def executeAppleScript_def)

lemma executed_log:
  "toolName \<noteq> [] \<Longrightarrow> toolScript toolName args = Inr script \<Longrightarrow>
   snd (callToolHandler osascript \<lparr>params_name = Some toolName, params_arguments = Some args\<rparr>) =
     [script]"
  by (simp add: callToolHandler_def executeAppleScript_def split: sum.splits)

lemma validateBoolean_iff: "validateBoolean v name = Inr b \<longleftrightarrow> v = JBool b"
  by (cases v) (auto simp: validateBoolean_def)

lemma validateBoolean_rejects:
  "typeof v \<noteq> TBoolean \<Longrightarrow> validateBoolean v name = Inl (Error (name @ str '' must be a boolean''))"
  by (simp add: validateBoolean_def)

lemma set_repeat_rejects:
  assumes \<open>typeof (getProperty args (str ''enabled'')) \<noteq> TBoolean\<close>
  shows \<open>callToolHandler osascript
      \<lparr>params_name = Some (str ''spotify_set_repeat''), params_arguments = Some args\<rparr> =
    (Inr \<lparr>content_text = str ''Error: enabled must be a boolean'', isError = Some True\<rparr>, [])\<close>
proof -
  from assms have \<open>toolScript (str ''spotify_set_repeat'') args =
      Inl (Error (str ''enabled'' @ str '' must be a boolean''))\<close>
    by (simp add: toolScript_set_repeat validateBoolean_rejects)
  with tool_names_nonempty(3) have \<open>callToolHandler osascript
      \<lparr>params_name = Some (str ''spotify_set_repeat''), params_arguments = Some args\<rparr> =
     (Inr \<lparr>content_text = str ''Error: '' @ str ''enabled'' @ str '' must be a boolean'',
            isError = Some True\<rparr>, [])\<close>
    by (rule rejected_response)
  then show ?thesis by (simp add: str_append)
qed

lemma set_shuffle_rejects:
  assumes \<open>typeof (getProperty args (str ''enabled'')) \<noteq> TBoolean\<close>
  shows \<open>callToolHandler osascript
      \<lparr>params_name = Some (str ''spotify_set_shuffle''), params_arguments = Some args\<rparr> =
    (Inr \<lparr>content_text = str ''Error: enabled must be a boolean'', isError = Some True\<rparr>, [])\<close>
proof -
  from assms have \<open>toolScript (str ''spotify_set_shuffle'') args =
      Inl (Error (str ''enabled'' @ str '' must be a boolean''))\<close>
    by (simp add: toolScript_set_shuffle validateBoolean_rejects)
  with tool_names_nonempty(4) have \<open>callToolHandler osascript
      \<lparr>params_name = Some (str ''spotify_set_shuffle''), params_arguments = Some args\<rparr> =
     (Inr \<lparr>content_text = str ''Error: '' @ str ''enabled'' @ str '' must be a boolean'',
            isError = Some True\<rparr>, [])\<close>
    by (rule rejected_response)
  then show ?thesis by (simp add: str_append)
qed

lemma validateBoolean_accepts_iff:
  "(\<exists>b. validateBoolean v name = Inr b) \<longleftrightarrow> typeof v = TBoolean"
  by (cases v) (auto simp: validateBoolean_def)

lemma isInteger_iff: "Number_isInteger n \<longleftrightarrow> (\<exists>i::int. n = Fin (of_int i))"
  by (cases n) (auto simp: Number_isInteger_def)

lemma validateInteger_iff:
  "validateInteger v name (Fin 0) (Fin 100) = Inr n \<longleftrightarrow>
     (\<exists>i::int. 0 \<le> i \<and> i \<le> 100 \<and> Number v = Fin (of_int i) \<and> n = Fin (of_int i))"
proof
  assume ok: "validateInteger v name (Fin 0) (Fin 100) = Inr n"
  then have int: "Number_isInteger (Number v)"
    and lo: "\<not> num_lt (Number v) (Fin 0)" and hi: "\<not> num_lt (Fin 100) (Number v)"
    and n: "n = Number v"
    by (auto simp: validateInteger_def Let_def split: if_splits)
  from int obtain i :: int where i: "Number v = Fin (of_int i)"
    unfolding isInteger_iff by blast
  with lo hi have "0 \<le> i" "i \<le> 100" by simp_all
  with i n show "\<exists>i::int. 0 \<le> i \<and> i \<le> 100 \<and> Number v = Fin (of_int i) \<and> n = Fin (of_int i)"
    by auto
next
  assume "\<exists>i::int. 0 \<le> i \<and> i \<le> 100 \<and> Number v = Fin (of_int i) \<and> n = Fin (of_int i)"
  then obtain i :: int where "0 \<le> i" "i \<le> 100" "Number v = Fin (of_int i)" "n = Fin (of_int i)"
    by blast
  then show "validateInteger v name (Fin 0) (Fin 100) = Inr n"
    by (simp add: validateInteger_def Number_isInteger_def)
qed

lemma validateInteger_not_integer:
  "\<not> Number_isInteger (Number v) \<Longrightarrow>
   validateInteger v name lo hi = Inl (Error (name @ str '' must be an integer''))"
  by (simp add: validateInteger_def)

lemma Number_examples:
  "Number JNull = Fin 0"
  \<open>Number (JStr (str ''50'')) = Fin 50\<close>
  "Number (JBool True) = Fin 1"
  "Number JUndefined = NaN"
  \<open>Number (JStr (str ''abc'')) = NaN\<close>
  by (simp_all add: stringToNumber_50 stringToNumber_abc)

lemma validateInteger_accepts:
  "0 \<le> i \<Longrightarrow> i \<le> 100 \<Longrightarrow> Number v = Fin (of_int i) \<Longrightarrow>
   validateInteger v name (Fin 0) (Fin 100) = Inr (Fin (of_int i))"
  unfolding validateInteger_iff by blast

lemma validateInteger_examples:
  \<open>validateInteger JNull (str ''volume'') (Fin 0) (Fin 100) = Inr (Fin 0)\<close>
  \<open>validateInteger (JStr (str ''50'')) (str ''volume'') (Fin 0) (Fin 100) = Inr (Fin 50)\<close>
  \<open>validateInteger (JBool True) (str ''volume'') (Fin 0) (Fin 100) = Inr (Fin 1)\<close>
proof -
  show \<open>validateInteger JNull (str ''volume'') (Fin 0) (Fin 100) = Inr (Fin 0)\<close>
    using validateInteger_accepts [of 0 JNull] by simp
  show \<open>validateInteger (JStr (str ''50'')) (str ''volume'') (Fin 0) (Fin 100) = Inr (Fin 50)\<close>
    using validateInteger_accepts [of 50 \<open>JStr (str ''50'')\<close>] by (simp add: stringToNumber_50)
  show \<open>validateInteger (JBool True) (str ''volume'') (Fin 0) (Fin 100) = Inr (Fin 1)\<close>
    using validateInteger_accepts [of 1 "JBool True"] by simp
qed

lemma not_integer_examples:
  "\<not> Number_isInteger (Number JUndefined)"
  \<open>\<not> Number_isInteger (Number (JStr (str ''abc'')))\<close>
  "\<not> Number_isInteger (Number (JNum (Fin (7 / 2))))"
  by (simp_all add: Number_isInteger_def stringToNumber_abc floor_rat_numeral_divide)

lemma validateInteger_rejected_examples:
  \<open>validateInteger JUndefined (str ''volume'') (Fin 0) (Fin 100) =
     Inl (Error (str ''volume must be an integer''))\<close>
  \<open>validateInteger (JStr (str ''abc'')) (str ''volume'') (Fin 0) (Fin 100) =
     Inl (Error (str ''volume must be an integer''))\<close>
  \<open>validateInteger (JNum (Fin (7 / 2))) (str ''volume'') (Fin 0) (Fin 100) =
     Inl (Error (str ''volume must be an integer''))\<close>
  unfolding validateInteger_not_integer [OF not_integer_examples(1)]
    validateInteger_not_integer [OF not_integer_examples(2)]
    validateInteger_not_integer [OF not_integer_examples(3)]
  by (simp_all add: str_append)

lemma set_volume_accepts:
  assumes \<open>validateInteger (getProperty args (str ''volume'')) (str ''volume'') (Fin 0) (Fin 100) = Inr n\<close>
  shows \<open>snd (callToolHandler osascript
          \<lparr>params_name = Some (str ''spotify_set_volume''), params_arguments = Some args\<rparr>) =
     [str ''tell application "Spotify" to set sound volume to '' @ numberToString n]\<close>
  using tool_names_nonempty(2) by (rule executed_log) (simp add: toolScript_set_volume assms)

section \<open>Escaped text inside a literal\<close>

lemma scan_quoteUnit:
  "representable c \<Longrightarrow> scan True acc (quoteUnit c @ rest) = scan True (c # acc) rest"
  by (auto simp: representable_def quoteUnit_def unescape_def word_less_nat_alt word_le_nat_alt)

lemma surrogate_not_special:
  "is_lead_surrogate c \<Longrightarrow> c \<noteq> 0x22 \<and> c \<noteq> 0x5C"
  "is_trail_surrogate d \<Longrightarrow> d \<noteq> 0x22 \<and> d \<noteq> 0x5C"
  by (auto simp: is_lead_surrogate_def is_trail_surrogate_def)

lemma scan_quoteChars:
  "plain_text s \<Longrightarrow> scan True acc (quoteChars s @ rest) = scan True (rev s @ acc) rest"
proof (induction s arbitrary: acc rule: quoteChars.induct)
  case 1
  then show ?case by simp
next
  case (2 c)
  then show ?case by (simp add: scan_quoteUnit)
next
  case (3 c d ds)
  show ?case
  proof (cases "is_lead_surrogate c \<and> is_trail_surrogate d")
    case True
    with "3.prems" have "plain_text ds" by simp
    with True have step: "scan True (d # c # acc) (quoteChars ds @ rest) =
        scan True (rev ds @ d # c # acc) rest"
      by (rule "3.IH"(1))
    from True have "c \<noteq> 0x22" "c \<noteq> 0x5C" "d \<noteq> 0x22" "d \<noteq> 0x5C"
      using surrogate_not_special(1) [of c] surrogate_not_special(2) [of d] by simp_all
    with True step show ?thesis by simp
  next
    case False
    with "3.prems" have c: "representable c" and rest: "plain_text (d # ds)" by simp_all
    from False rest have step: "scan True (c # acc) (quoteChars (d # ds) @ rest) =
        scan True (rev (d # ds) @ c # acc) rest"
      by (rule "3.IH"(2))
    from False have "quoteChars (c # d # ds) @ rest = quoteUnit c @ (quoteChars (d # ds) @ rest)"
      by auto
    then have "scan True acc (quoteChars (c # d # ds) @ rest) =
        scan True (c # acc) (quoteChars (d # ds) @ rest)"
      using c by (simp only: scan_quoteUnit)
    with step show ?thesis by simp
  qed
qed

lemma scan_quoteUnit_rejected:
  "\<not> representable c \<Longrightarrow> scan True acc (quoteUnit c @ rest) = None"
  by (auto simp: representable_def quoteUnit_def unicodeEscape_def unescape_def
      is_lead_surrogate_def is_trail_surrogate_def word_less_nat_alt word_le_nat_alt)

lemma scan_quoteChars_rejected:
  "\<not> plain_text s \<Longrightarrow> scan True acc (quoteChars s @ rest) = None"
proof (induction s arbitrary: acc rule: quoteChars.induct)
  case 1
  then show ?case by simp
next
  case (2 c)
  then show ?case by (simp add: scan_quoteUnit_rejected)
next
  case (3 c d ds)
  show ?case
  proof (cases "is_lead_surrogate c \<and> is_trail_surrogate d")
    case True
    with "3.prems" have "\<not> plain_text ds" by simp
    with True have step: "scan True (d # c # acc) (quoteChars ds @ rest) = None"
      by (rule "3.IH"(1))
    from True have "c \<noteq> 0x22" "c \<noteq> 0x5C" "d \<noteq> 0x22" "d \<noteq> 0x5C"
      using surrogate_not_special(1) [of c] surrogate_not_special(2) [of d] by simp_all
    with True step show ?thesis by simp
  next
    case False
    then have split: "quoteChars (c # d # ds) @ rest = quoteUnit c @ (quoteChars (d # ds) @ rest)"
      by auto
    show ?thesis
    proof (cases "representable c")
      case True
      with False "3.prems" have "\<not> plain_text (d # ds)" by auto
      with False have "scan True (c # acc) (quoteChars (d # ds) @ rest) = None"
        by (rule "3.IH"(2))
      with True split show ?thesis by (simp only: scan_quoteUnit)
    next
      case bad: False
      then have "scan True acc (quoteUnit c @ (quoteChars (d # ds) @ rest)) = None"
        by (rule scan_quoteUnit_rejected)
      with split show ?thesis by (simp only:)
    qed
  qed
qed

lemma scan_escaped:
  "scan True acc (escapeAppleScriptString (JStr s) @ 0x22 # rest) =
     (if plain_text s then map_option (\<lambda>ts. Literal (rev acc @ s) # ts) (scan False [] rest)
      else None)"
  by (simp add: escape_JStr scan_quoteChars scan_quoteChars_rejected)

lemma replaceAll_simps:
  "replaceAll c r [] = []"
  "replaceAll c r (x # xs) = (if x = c then r else [x]) @ replaceAll c r xs"
  "replaceAll c r (xs @ ys) = replaceAll c r xs @ replaceAll c r ys"
  by (simp_all add: replaceAll_def)

lemma scan_escaped_v1:
  "scan True acc (escapeAppleScriptString_v1 (JStr s) @ rest) = scan True (rev s @ acc) rest"
  by (induction s arbitrary: acc)
    (simp_all add: escapeAppleScriptString_v1_def replaceAll_simps unescape_def)

section \<open>Claims\<close>

text \<open>
  C1. Whenever \<open>spotify_play_track\<close> accepts its arguments, the \<open>uri\<close> is a
  string of letters, digits and colons, and so is the \<open>context\<close> when one is given (a
  truthy value); the command is the fixed template around them, and read by the target
  language's rules for string literals it consists of the template's own code and
  literals with the caller's texts as whole literals, unchanged: nothing of the caller's
  ends a literal or stands outside one. That command is the one script the call hands
  to the executor.
\<close>

theorem play_track_command_structure:
  assumes \<open>playScript args = Inr script\<close>
  shows \<open>snd (callToolHandler osascript
          \<lparr>params_name = Some (str ''spotify_play_track''), params_arguments = Some args\<rparr>) =
      [script] \<and>
    (\<exists>u. getProperty args (str ''uri'') = JStr u \<and> list_all is_uri_char u \<and>
    (if truthy (getProperty args (str ''context''))
     then \<exists>c. getProperty args (str ''context'') = JStr c \<and> list_all is_uri_char c \<and>
            script = str ''tell application "Spotify" to play track "'' @ u
                     @ str ''" in context "'' @ c @ str ''"'' \<and>
            tokens script =
              Some [Code (str ''tell application ''), Literal (str ''Spotify''),
                    Code (str '' to play track ''), Literal u,
                    Code (str '' in context ''), Literal c]
     else script = str ''tell application "Spotify" to play track "'' @ u @ str ''"'' \<and>
          tokens script =
            Some [Code (str ''tell application ''), Literal (str ''Spotify''),
                  Code (str '' to play track ''), Literal u]))\<close>
proof -
  from assms have valid: \<open>isValidSpotifyUri (getProperty args (str ''uri''))\<close>
    by (auto simp: playScript_def split: if_splits)
  then obtain u where u: \<open>getProperty args (str ''uri'') = JStr u\<close>
    and uc: "list_all is_uri_char u"
    using escape_valid by blast
  have shape: \<open>\<exists>u. getProperty args (str ''uri'') = JStr u \<and> list_all is_uri_char u \<and>
    (if truthy (getProperty args (str ''context''))
     then \<exists>c. getProperty args (str ''context'') = JStr c \<and> list_all is_uri_char c \<and>
            script = str ''tell application "Spotify" to play track "'' @ u
                     @ str ''" in context "'' @ c @ str ''"'' \<and>
            tokens script =
              Some [Code (str ''tell application ''), Literal (str ''Spotify''),
                    Code (str '' to play track ''), Literal u,
                    Code (str '' in context ''), Literal c]
     else script = str ''tell application "Spotify" to play track "'' @ u @ str ''"'' \<and>
          tokens script =
            Some [Code (str ''tell application ''), Literal (str ''Spotify''),
                  Code (str '' to play track ''), Literal u])\<close>
  proof (cases \<open>truthy (getProperty args (str ''context''))\<close>)
    case False
    with valid u have \<open>playScript args =
        Inr (str ''tell application "Spotify" to play track "'' @ u @ str ''"'')\<close>
      by (simp add: playScript_no_context)
    with assms have \<open>script = str ''tell application "Spotify" to play track "'' @ u @ str ''"''\<close>
      by simp
    with False u uc show ?thesis
      by (simp add: tokens_play_track)
  next
    case True
    with assms have cvalid: \<open>isValidSpotifyUri (getProperty args (str ''context''))\<close>
      by (auto simp: playScript_def split: if_splits)
    then obtain c where c: \<open>getProperty args (str ''context'') = JStr c\<close>
      and cc: "list_all is_uri_char c"
      using escape_valid by blast
    from valid u cvalid c have \<open>playScript args =
        Inr (str ''tell application "Spotify" to play track "'' @ u @ str ''" in context "'' @ c
             @ str ''"'')\<close>
      by (simp add: playScript_context)
    with assms have \<open>script = str ''tell application "Spotify" to play track "'' @ u
        @ str ''" in context "'' @ c @ str ''"''\<close>
      by simp
    with True u uc c cc show ?thesis
      by (simp add: tokens_play_track_in_context)
  qed
  have executed: \<open>snd (callToolHandler osascript
          \<lparr>params_name = Some (str ''spotify_play_track''), params_arguments = Some args\<rparr>) =
      [script]\<close>
    using tool_names_nonempty(1) by (rule executed_log) (simp add: toolScript_play_track assms)
  from executed shape show ?thesis by (rule conjI)
qed

theorem play_track_command_structure_witness:
  \<open>playScript [str ''uri'' \<mapsto> JStr example_uri, str ''context'' \<mapsto> JStr example_context] =
     Inr (str ''tell application "Spotify" to play track "'' @ example_uri
          @ str ''" in context "'' @ example_context @ str ''"'') \<and>
   tokens (str ''tell application "Spotify" to play track "'' @ example_uri
          @ str ''" in context "'' @ example_context @ str ''"'') =
     Some [Code (str ''tell application ''), Literal (str ''Spotify''),
           Code (str '' to play track ''), Literal example_uri,
           Code (str '' in context ''), Literal example_context]\<close>
proof -
  let ?args = \<open>[str ''uri'' \<mapsto> JStr example_uri, str ''context'' \<mapsto> JStr example_context]\<close>
  have u: \<open>getProperty ?args (str ''uri'') = JStr example_uri\<close>
    and c: \<open>getProperty ?args (str ''context'') = JStr example_context\<close>
    by (simp_all add: getProperty_def str_uri_context)
  have built: \<open>playScript ?args =
     Inr (str ''tell application "Spotify" to play track "'' @ example_uri
          @ str ''" in context "'' @ example_context @ str ''"'')\<close>
    using example_uri_valid u example_context_valid c by (rule playScript_context)
  have "example_context \<noteq> []" by (simp add: example_context_def str_def)
  with play_track_command_structure [OF built, of "stub_executor silent"] u c built show ?thesis
    by simp
qed

text \<open>
  C3. \<open>isValidSpotifyUri\<close> accepts a value exactly when it is a string of the grammar
  \<open>spotify:<type>:<segment>(:<segment>)*\<close>; and whenever the \<open>uri\<close> argument is not
  accepted, \<open>spotify_play_track\<close> answers with the error response
  \<open>Error: Invalid Spotify URI format\<close> and the executor is not called.
\<close>

theorem spotify_uri_validator_is_grammar:
  \<open>(isValidSpotifyUri v \<longleftrightarrow> (\<exists>s. v = JStr s \<and> spotify_uri_grammar s)) \<and>
   (\<not> isValidSpotifyUri (getProperty args (str ''uri'')) \<longrightarrow>
      callToolHandler osascript
        \<lparr>params_name = Some (str ''spotify_play_track''), params_arguments = Some args\<rparr> =
      (Inr \<lparr>content_text = str ''Error: Invalid Spotify URI format'', isError = Some True\<rparr>, []))\<close>
  using isValidSpotifyUri_iff [of v] play_track_invalid_uri [of args osascript] by blast

theorem spotify_uri_validator_is_grammar_witness:
  \<open>spotify_uri_grammar example_uri \<and>
   \<not> spotify_uri_grammar (str ''not-a-uri'') \<and>
   \<not> spotify_uri_grammar (str ''spotify:track:'') \<and>
   \<not> spotify_uri_grammar (str ''spotify:track:has space'') \<and>
   callToolHandler (stub_executor silent)
     \<lparr>params_name = Some (str ''spotify_play_track''),
      params_arguments = Some [str ''uri'' \<mapsto> JStr (str ''spotify:track:has space'')]\<rparr> =
   (Inr \<lparr>content_text = str ''Error: Invalid Spotify URI format'', isError = Some True\<rparr>, [])\<close>
  using spotify_uri_validator_is_grammar [of "JStr example_uri"]
    spotify_uri_validator_is_grammar [of \<open>JStr (str ''not-a-uri'')\<close>]
    spotify_uri_validator_is_grammar [of \<open>JStr (str ''spotify:track:'')\<close>]
    spotify_uri_validator_is_grammar [of \<open>JStr (str ''spotify:track:has space'')\<close>
      \<open>[str ''uri'' \<mapsto> JStr (str ''spotify:track:has space'')]\<close> "stub_executor silent"]
    example_uri_valid rejected_examples
  by (simp add: getProperty_def)

text \<open>
  C4. For every integer \<open>volume\<close> below 0 or above 100, \<open>spotify_set_volume\<close> answers
  with the error response \<open>Error: volume must be between 0 and 100\<close>, which names the
  parameter and the allowed range, and no script reaches the executor.
\<close>

theorem set_volume_out_of_range:
  assumes "i < 0 \<or> 100 < i"
    and \<open>args (str ''volume'') = Some (JNum (Fin (of_int i)))\<close>
  shows \<open>callToolHandler osascript
      \<lparr>params_name = Some (str ''spotify_set_volume''), params_arguments = Some args\<rparr> =
    (Inr \<lparr>content_text = str ''Error: volume must be between 0 and 100'', isError = Some True\<rparr>,
     [])\<close>
proof -
  from assms(2) have \<open>getProperty args (str ''volume'') = JNum (Fin (of_int i))\<close>
    by (simp add: getProperty_def)
  with assms(1) have \<open>toolScript (str ''spotify_set_volume'') args =
      Inl (Error (str ''volume must be between 0 and 100''))\<close>
    by (simp add: toolScript_set_volume validateInteger_out_of_range)
  with tool_names_nonempty(2) have \<open>callToolHandler osascript
      \<lparr>params_name = Some (str ''spotify_set_volume''), params_arguments = Some args\<rparr> =
     (Inr \<lparr>content_text = str ''Error: '' @ str ''volume must be between 0 and 100'',
            isError = Some True\<rparr>, [])\<close>
    by (rule rejected_response)
  then show ?thesis by (simp add: str_append)
qed

theorem set_volume_out_of_range_witness:
  \<open>callToolHandler (stub_executor silent)
      \<lparr>params_name = Some (str ''spotify_set_volume''),
       params_arguments = Some [str ''volume'' \<mapsto> JNum (Fin 101)]\<rparr> =
    (Inr \<lparr>content_text = str ''Error: volume must be between 0 and 100'', isError = Some True\<rparr>,
     []) \<and>
   callToolHandler (stub_executor silent)
      \<lparr>params_name = Some (str ''spotify_set_volume''),
       params_arguments = Some [str ''volume'' \<mapsto> JNum (Fin (- 1))]\<rparr> =
    (Inr \<lparr>content_text = str ''Error: volume must be between 0 and 100'', isError = Some True\<rparr>,
     [])\<close>
  using set_volume_out_of_range [of 101 \<open>[str ''volume'' \<mapsto> JNum (Fin 101)]\<close> "stub_executor silent"]
    set_volume_out_of_range [of "- 1" \<open>[str ''volume'' \<mapsto> JNum (Fin (- 1))]\<close> "stub_executor silent"]
  by simp

text \<open>
  C5, as the code has it. A request whose tool name is absent or empty is rejected before
  the lookup: the handler throws \<open>Tool name is required\<close> from in front of its
  \<open>try\<close> block, so the call ends with that error and not with a response, and the
  executor is not called.
\<close>

theorem missing_tool_name_is_thrown:
  assumes "params_name request = None \<or> params_name request = Some []"
  shows \<open>callToolHandler osascript request = (Inl (Error (str ''Tool name is required'')), [])\<close>
  using assms by (auto simp: callToolHandler_def)

theorem missing_tool_name_is_thrown_witness:
  \<open>callToolHandler (stub_executor silent) \<lparr>params_name = None, params_arguments = None\<rparr> =
     (Inl (Error (str ''Tool name is required'')), []) \<and>
   callToolHandler (stub_executor silent) \<lparr>params_name = Some [], params_arguments = None\<rparr> =
     (Inl (Error (str ''Tool name is required'')), [])\<close>
  using missing_tool_name_is_thrown [of "\<lparr>params_name = None, params_arguments = None\<rparr>"
      "stub_executor silent"]
    missing_tool_name_is_thrown [of "\<lparr>params_name = Some [], params_arguments = None\<rparr>"
      "stub_executor silent"]
  by simp

theorem missing_tool_name_no_response:
  "\<not> (\<exists>r. fst (callToolHandler (stub_executor silent)
                  \<lparr>params_name = Some [], params_arguments = None\<rparr>) = Inr r)"
  by (simp add: callToolHandler_def)

text \<open>
  C6. For every tool name that is present (not empty) and not one of the sixteen names of
  the catalogue, the handler answers with the error response whose text is
  \<open>Error: Unknown tool: \<close> followed by the name, and the executor is not called.
\<close>

theorem unknown_tool:
  assumes "toolName \<noteq> []" and "toolName \<notin> set toolNames"
  shows \<open>callToolHandler osascript \<lparr>params_name = Some toolName, params_arguments = a\<rparr> =
    (Inr \<lparr>content_text = str ''Error: Unknown tool: '' @ toolName, isError = Some True\<rparr>, [])\<close>
proof -
  from assms(2) have \<open>toolScript toolName (case a of None \<Rightarrow> Map.empty | Some m \<Rightarrow> m) =
      Inl (Error (str ''Unknown tool: '' @ toolName))\<close>
    by (rule toolScript_unknown)
  with assms(1) have \<open>callToolHandler osascript
      \<lparr>params_name = Some toolName, params_arguments = a\<rparr> =
      (Inr (errorResponse (Error (str ''Unknown tool: '' @ toolName))), [])\<close>
    by (rule callToolHandler_rejected)
  then show ?thesis by (simp add: errorResponse_def str_append)
qed

theorem unknown_tool_witness:
  \<open>length toolNames = 16 \<and> distinct toolNames \<and>
   callToolHandler (stub_executor silent)
     \<lparr>params_name = Some (str ''spotify_frobnicate''), params_arguments = None\<rparr> =
    (Inr \<lparr>content_text = str ''Error: Unknown tool: spotify_frobnicate'', isError = Some True\<rparr>,
     [])\<close>
proof -
  have n: \<open>str ''spotify_frobnicate'' \<noteq> []\<close>
    and u: \<open>str ''spotify_frobnicate'' \<notin> set toolNames\<close>
    by (simp_all add: toolNames_def str_def)
  have \<open>str ''Error: Unknown tool: '' @ str ''spotify_frobnicate'' =
      str ''Error: Unknown tool: spotify_frobnicate''\<close>
    by (simp add: str_append)
  with unknown_tool [OF n u, of "stub_executor silent" None]
  show ?thesis by (simp add: toolNames_def str_def)
qed

text \<open>
  C7. For \<open>uri = "spotify:track:4uLU6hMCjMI75M1A2tKUQC"\<close> and no context, the script
  built for \<open>spotify_play_track\<close> is the command
  \<open>play track "spotify:track:4uLU6hMCjMI75M1A2tKUQC"\<close> addressed to the application
  (behind \<open>tell application "Spotify" to\<close>, as every script of the server is); when the
  executor succeeds on it, the handler returns a response without \<open>isError\<close> whose text
  is the executor's standard output, trimmed, and that script is the only one executed.
\<close>

theorem play_track_example:
  assumes \<open>args (str ''uri'') = Some (JStr (str ''spotify:track:4uLU6hMCjMI75M1A2tKUQC''))\<close>
    and \<open>args (str ''context'') = None\<close>
    and \<open>osascript (str ''tell application "Spotify" to ''
            @ str ''play track "spotify:track:4uLU6hMCjMI75M1A2tKUQC"'') = Inr out\<close>
  shows \<open>toolScript (str ''spotify_play_track'') args =
      Inr (str ''tell application "Spotify" to ''
           @ str ''play track "spotify:track:4uLU6hMCjMI75M1A2tKUQC"'') \<and>
    callToolHandler osascript
      \<lparr>params_name = Some (str ''spotify_play_track''), params_arguments = Some args\<rparr> =
    (Inr \<lparr>content_text = trim (stdout out), isError = None\<rparr>,
     [str ''tell application "Spotify" to ''
      @ str ''play track "spotify:track:4uLU6hMCjMI75M1A2tKUQC"''])\<close>
proof -
  from assms(1) have u: \<open>getProperty args (str ''uri'') = JStr example_uri\<close>
    by (simp add: getProperty_def example_uri_def)
  from assms(2) have c: \<open>\<not> truthy (getProperty args (str ''context''))\<close>
    by (simp add: getProperty_def)
  have \<open>playScript args =
      Inr (str ''tell application "Spotify" to play track "'' @ example_uri @ str ''"'')\<close>
    using example_uri_valid u c by (rule playScript_no_context)
  then have script: \<open>toolScript (str ''spotify_play_track'') args =
      Inr (str ''tell application "Spotify" to ''
           @ str ''play track "spotify:track:4uLU6hMCjMI75M1A2tKUQC"'')\<close>
    by (simp add: toolScript_play_track example_uri_def str_append)
  from tool_names_nonempty(1) script assms(3) have \<open>callToolHandler osascript
      \<lparr>params_name = Some (str ''spotify_play_track''), params_arguments = Some args\<rparr> =
    (Inr \<lparr>content_text = trim (stdout out), isError = None\<rparr>,
     [str ''tell application "Spotify" to ''
      @ str ''play track "spotify:track:4uLU6hMCjMI75M1A2tKUQC"''])\<close>
    by (rule executed_response)
  with script show ?thesis by simp
qed

theorem play_track_example_witness:
  \<open>callToolHandler (stub_executor \<lparr>stdout = str ''  ok '' @ [0x0A], stderr = []\<rparr>)
      \<lparr>params_name = Some (str ''spotify_play_track''),
       params_arguments =
         Some [str ''uri'' \<mapsto> JStr (str ''spotify:track:4uLU6hMCjMI75M1A2tKUQC'')]\<rparr> =
    (Inr \<lparr>content_text = str ''ok'', isError = None\<rparr>,
     [str ''tell application "Spotify" to play track "spotify:track:4uLU6hMCjMI75M1A2tKUQC"''])\<close>
proof -
  let ?args = \<open>[str ''uri'' \<mapsto> JStr (str ''spotify:track:4uLU6hMCjMI75M1A2tKUQC'')]\<close>
  let ?out = \<open>\<lparr>stdout = str ''  ok '' @ [0x0A], stderr = []\<rparr>\<close>
  have a: \<open>?args (str ''uri'') = Some (JStr (str ''spotify:track:4uLU6hMCjMI75M1A2tKUQC''))\<close>
    by simp
  have b: \<open>?args (str ''context'') = None\<close>
    by (simp add: str_uri_context)
  have c: \<open>stub_executor ?out (str ''tell application "Spotify" to ''
            @ str ''play track "spotify:track:4uLU6hMCjMI75M1A2tKUQC"'') = Inr ?out\<close>
    by (simp add: stub_executor_def)
  have t: \<open>trim (str ''  ok '' @ [0x0A]) = str ''ok''\<close>
    by (simp add: trim_def is_ws_def str_def)
  from play_track_example [of ?args "stub_executor ?out" ?out, OF a b c] t show ?thesis
    by (simp add: str_append)
qed

text \<open>
  C8. \<open>validateBoolean\<close> accepts a value exactly when its type is boolean and returns
  it unchanged; for any other value of \<open>enabled\<close>, the string \<open>"true"\<close> included,
  \<open>spotify_set_repeat\<close> and \<open>spotify_set_shuffle\<close> answer with the error response
  \<open>Error: enabled must be a boolean\<close> and the executor is not called.
\<close>

theorem validateBoolean_no_coercion:
  \<open>((\<exists>r. validateBoolean v name = Inr r) \<longleftrightarrow> typeof v = TBoolean) \<and>
   (validateBoolean v name = Inr b \<longleftrightarrow> v = JBool b) \<and>
   (typeof v \<noteq> TBoolean \<longrightarrow>
      validateBoolean v name = Inl (Error (name @ str '' must be a boolean''))) \<and>
   (typeof (getProperty args (str ''enabled'')) \<noteq> TBoolean \<longrightarrow>
      callToolHandler osascript
        \<lparr>params_name = Some (str ''spotify_set_repeat''), params_arguments = Some args\<rparr> =
      (Inr \<lparr>content_text = str ''Error: enabled must be a boolean'', isError = Some True\<rparr>, [])
      \<and>
      callToolHandler osascript
        \<lparr>params_name = Some (str ''spotify_set_shuffle''), params_arguments = Some args\<rparr> =
      (Inr \<lparr>content_text = str ''Error: enabled must be a boolean'', isError = Some True\<rparr>, []))\<close>
  using validateBoolean_accepts_iff [of v name] validateBoolean_iff [of v name b]
    validateBoolean_rejects [of v name] set_repeat_rejects [of args osascript]
    set_shuffle_rejects [of args osascript]
  by blast

theorem validateBoolean_no_coercion_witness:
  \<open>validateBoolean (JBool True) (str ''enabled'') = Inr True \<and>
   validateBoolean (JStr (str ''true'')) (str ''enabled'') \<noteq> Inr True \<and>
   callToolHandler (stub_executor silent)
     \<lparr>params_name = Some (str ''spotify_set_repeat''),
      params_arguments = Some [str ''enabled'' \<mapsto> JStr (str ''true'')]\<rparr> =
   (Inr \<lparr>content_text = str ''Error: enabled must be a boolean'', isError = Some True\<rparr>, []) \<and>
   callToolHandler (stub_executor silent)
     \<lparr>params_name = Some (str ''spotify_set_shuffle''),
      params_arguments = Some [str ''enabled'' \<mapsto> JStr (str ''true'')]\<rparr> =
   (Inr \<lparr>content_text = str ''Error: enabled must be a boolean'', isError = Some True\<rparr>, [])\<close>
  using validateBoolean_no_coercion [of "JBool True" \<open>str ''enabled''\<close> True
      \<open>[str ''enabled'' \<mapsto> JStr (str ''true'')]\<close> "stub_executor silent"]
    validateBoolean_no_coercion [of \<open>JStr (str ''true'')\<close> \<open>str ''enabled''\<close> True]
  by (simp add: getProperty_def)

text \<open>
  C9. With a valid \<open>uri\<close>, \<open>spotify_play_track\<close> fails in validation exactly when the
  \<open>context\<close> is truthy and not a valid Spotify URI, then with the context error. An
  empty string as context passes: it counts as absent, and the command built and
  executed is the form without a context.
\<close>

theorem empty_context_is_absent:
  assumes \<open>isValidSpotifyUri (JStr u)\<close> and \<open>getProperty args (str ''uri'') = JStr u\<close>
  shows \<open>((\<exists>e. playScript args = Inl e) \<longleftrightarrow>
            truthy (getProperty args (str ''context''))
            \<and> \<not> isValidSpotifyUri (getProperty args (str ''context''))) \<and>
    (truthy (getProperty args (str ''context''))
       \<and> \<not> isValidSpotifyUri (getProperty args (str ''context'')) \<longrightarrow>
     playScript args = Inl (Error (str ''Invalid Spotify context URI format''))) \<and>
    (getProperty args (str ''context'') = JStr [] \<longrightarrow>
     playScript args =
       Inr (str ''tell application "Spotify" to play track "'' @ u @ str ''"'') \<and>
     snd (callToolHandler osascript
           \<lparr>params_name = Some (str ''spotify_play_track''), params_arguments = Some args\<rparr>) =
       [str ''tell application "Spotify" to play track "'' @ u @ str ''"''])\<close>
proof -
  have valid: \<open>isValidSpotifyUri (getProperty args (str ''uri''))\<close>
    using assms by simp
  have raised: \<open>playScript args = Inl (Error (str ''Invalid Spotify context URI format''))\<close>
    if \<open>truthy (getProperty args (str ''context''))\<close>
      and \<open>\<not> isValidSpotifyUri (getProperty args (str ''context''))\<close>
    using valid that by (rule playScript_invalid_context)
  have passed: \<open>\<exists>script. playScript args = Inr script\<close>
    if \<open>\<not> (truthy (getProperty args (str ''context''))
             \<and> \<not> isValidSpotifyUri (getProperty args (str ''context'')))\<close>
    using valid that by (auto simp: playScript_def Let_def)
  have absent: \<open>playScript args =
       Inr (str ''tell application "Spotify" to play track "'' @ u @ str ''"'')\<close>
    if \<open>getProperty args (str ''context'') = JStr []\<close>
    using assms that by (simp add: playScript_no_context)
  have logged: \<open>snd (callToolHandler osascript
           \<lparr>params_name = Some (str ''spotify_play_track''), params_arguments = Some args\<rparr>) =
       [str ''tell application "Spotify" to play track "'' @ u @ str ''"'']\<close>
    if \<open>getProperty args (str ''context'') = JStr []\<close>
    using tool_names_nonempty(1) absent [OF that]
    by (intro executed_log) (simp_all add: toolScript_play_track)
  from raised passed absent logged show ?thesis
    by (metis sum.distinct(1))
qed

theorem empty_context_is_absent_witness:
  \<open>playScript [str ''uri'' \<mapsto> JStr example_uri, str ''context'' \<mapsto> JStr []] =
     Inr (str ''tell application "Spotify" to play track "'' @ example_uri @ str ''"'') \<and>
   snd (callToolHandler (stub_executor silent)
         \<lparr>params_name = Some (str ''spotify_play_track''),
          params_arguments = Some [str ''uri'' \<mapsto> JStr example_uri, str ''context'' \<mapsto> JStr []]\<rparr>) =
     [str ''tell application "Spotify" to play track "'' @ example_uri @ str ''"''] \<and>
   playScript [str ''uri'' \<mapsto> JStr example_uri, str ''context'' \<mapsto> JStr (str ''x'')] =
     Inl (Error (str ''Invalid Spotify context URI format''))\<close>
proof -
  let ?a = \<open>[str ''uri'' \<mapsto> JStr example_uri, str ''context'' \<mapsto> JStr []]\<close>
  let ?b = \<open>[str ''uri'' \<mapsto> JStr example_uri, str ''context'' \<mapsto> JStr (str ''x'')]\<close>
  have ua: \<open>getProperty ?a (str ''uri'') = JStr example_uri\<close>
    and ca: \<open>getProperty ?a (str ''context'') = JStr []\<close>
    and ub: \<open>getProperty ?b (str ''uri'') = JStr example_uri\<close>
    and cb: \<open>getProperty ?b (str ''context'') = JStr (str ''x'')\<close>
    by (simp_all add: getProperty_def str_uri_context)
  have x: \<open>truthy (JStr (str ''x''))\<close> \<open>\<not> isValidSpotifyUri (JStr (str ''x''))\<close>
    by (simp_all add: regex_eval)
  from empty_context_is_absent [OF example_uri_valid ua, of "stub_executor silent"]
    empty_context_is_absent [OF example_uri_valid ub, of "stub_executor silent"] ca cb x
  show ?thesis by simp
qed

text \<open>
  C10. \<open>validateInteger\<close> checks \<open>Number(value)\<close>: with the bounds of
  \<open>spotify_set_volume\<close> it accepts a value exactly when its numeric coercion is an
  integer from 0 to 100, and returns that number. So \<open>null\<close> is accepted as 0, the string
  \<open>"50"\<close> as 50 and \<open>true\<close> as 1, while \<open>undefined\<close>, \<open>"abc"\<close> and 3.5 are rejected;
  an accepted value reaches the executor as the number in the script.
\<close>

theorem validateInteger_coerces:
  \<open>(validateInteger v name (Fin 0) (Fin 100) = Inr n \<longleftrightarrow>
      (\<exists>i::int. 0 \<le> i \<and> i \<le> 100 \<and> Number v = Fin (of_int i) \<and> n = Fin (of_int i))) \<and>
   validateInteger JNull (str ''volume'') (Fin 0) (Fin 100) = Inr (Fin 0) \<and>
   validateInteger (JStr (str ''50'')) (str ''volume'') (Fin 0) (Fin 100) = Inr (Fin 50) \<and>
   validateInteger (JBool True) (str ''volume'') (Fin 0) (Fin 100) = Inr (Fin 1) \<and>
   validateInteger JUndefined (str ''volume'') (Fin 0) (Fin 100) =
     Inl (Error (str ''volume must be an integer'')) \<and>
   validateInteger (JStr (str ''abc'')) (str ''volume'') (Fin 0) (Fin 100) =
     Inl (Error (str ''volume must be an integer'')) \<and>
   validateInteger (JNum (Fin (7 / 2))) (str ''volume'') (Fin 0) (Fin 100) =
     Inl (Error (str ''volume must be an integer'')) \<and>
   (validateInteger (getProperty args (str ''volume'')) (str ''volume'') (Fin 0) (Fin 100) = Inr m
    \<longrightarrow> snd (callToolHandler osascript
              \<lparr>params_name = Some (str ''spotify_set_volume''), params_arguments = Some args\<rparr>) =
        [str ''tell application "Spotify" to set sound volume to '' @ numberToString m])\<close>
  using validateInteger_iff [of v name n] validateInteger_examples
    validateInteger_rejected_examples set_volume_accepts [of args m osascript]
  by blast

theorem validateInteger_coerces_witness:
  \<open>snd (callToolHandler (stub_executor silent)
          \<lparr>params_name = Some (str ''spotify_set_volume''),
           params_arguments = Some [str ''volume'' \<mapsto> JStr (str ''50'')]\<rparr>) =
     [str ''tell application "Spotify" to set sound volume to 50''] \<and>
   snd (callToolHandler (stub_executor silent)
          \<lparr>params_name = Some (str ''spotify_set_volume''),
           params_arguments = Some [str ''volume'' \<mapsto> JNull]\<rparr>) =
     [str ''tell application "Spotify" to set sound volume to 0''] \<and>
   snd (callToolHandler (stub_executor silent)
          \<lparr>params_name = Some (str ''spotify_set_volume''),
           params_arguments = Some [str ''volume'' \<mapsto> JBool True]\<rparr>) =
     [str ''tell application "Spotify" to set sound volume to 1'']\<close>
  using validateInteger_coerces [of JNull \<open>str ''volume''\<close> "Fin 0"
      \<open>[str ''volume'' \<mapsto> JStr (str ''50'')]\<close> "Fin 50" "stub_executor silent"]
    validateInteger_coerces [of JNull \<open>str ''volume''\<close> "Fin 0"
      \<open>[str ''volume'' \<mapsto> JNull]\<close> "Fin 0" "stub_executor silent"]
    validateInteger_coerces [of JNull \<open>str ''volume''\<close> "Fin 0"
      \<open>[str ''volume'' \<mapsto> JBool True]\<close> "Fin 1" "stub_executor silent"]
  by (simp add: getProperty_def positiveToString_values str_append)

text \<open>
  C2. The claim is that \<open>escapeAppleScriptString\<close> between double quotes is, for every
  string, a literal of the target language that denotes the string. The code misses
  this at control characters: for the string of the one character backspace (U+0008) it
  returns JSON's escape \<open>\b\<close>, and \<open>"\b"\<close> is not a string literal the target language
  can read, so it does not denote the string.
\<close>

theorem escape_backspace_not_decoded:
  "escapeAppleScriptString (JStr [0x08]) = [0x5C, 0x62] \<and>
   tokens ([0x22] @ escapeAppleScriptString (JStr [0x08]) @ [0x22]) = None \<and>
   tokens ([0x22] @ escapeAppleScriptString (JStr [0x08]) @ [0x22]) \<noteq> Some [Literal [0x08]]"
  by (simp add: escape_JStr quoteUnit_def tokens_def unescape_def)

text \<open>
  The escaping of version 0.0.1 does what the claim says, for every string: between
  double quotes it is one literal that denotes exactly the string.
\<close>

theorem escape_v1_round_trip:
  "tokens ([0x22] @ escapeAppleScriptString_v1 (JStr s) @ [0x22]) = Some [Literal s]"
  by (simp add: tokens_def scan_escaped_v1 code_chunk_def)

text \<open>
  Where the present escaping keeps the string: exactly on the strings without a control
  character below \<open>0x20\<close> other than tab, line feed and carriage return, and without an
  unpaired surrogate. On every other string the escaped text holds \<open>\b\<close>, \<open>\f\<close> or
  \<open>\u\<close> with four digits, and the literal has no reading.
\<close>

theorem escape_round_trip:
  "tokens ([0x22] @ escapeAppleScriptString (JStr s) @ [0x22]) =
     (if plain_text s then Some [Literal s] else None)"
  by (simp add: tokens_def scan_escaped code_chunk_def)

theorem escape_round_trip_example:
  \<open>tokens ([0x22] @ escapeAppleScriptString (JStr (str ''say "hi"'' @ [0x5C, 0x0A, 0x09, 0xD83D, 0xDE00])) @ [0x22]) =
     Some [Literal (str ''say "hi"'' @ [0x5C, 0x0A, 0x09, 0xD83D, 0xDE00])]\<close>
proof -
  have \<open>plain_text (str ''say "hi"'' @ [0x5C, 0x0A, 0x09, 0xD83D, 0xDE00])\<close>
    by (simp add: str_def representable_def is_lead_surrogate_def is_trail_surrogate_def)
  with escape_round_trip [of \<open>str ''say "hi"'' @ [0x5C, 0x0A, 0x09, 0xD83D, 0xDE00]\<close>]
  show ?thesis by simp
qed

text \<open>
  Whatever the string, its escaped text never ends the literal it stands in: scanning
  from inside the literal either fails on an unknown escape or arrives at the closing
  quote of the template with the whole string as the literal's text.
\<close>

theorem escaped_text_stays_in_literal:
  "scan True acc (escapeAppleScriptString (JStr s) @ 0x22 # rest) = None \<or>
   scan True acc (escapeAppleScriptString (JStr s) @ 0x22 # rest) =
     map_option (\<lambda>ts. Literal (rev acc @ s) # ts) (scan False [] rest)"
  by (simp add: scan_escaped)

end
